theory Spec2Isabelle
  imports Main "HOL-Library.Sublist"
begin

section \<open>Data model\<close>

text \<open>
  Go's dynamically typed values (\<^verbatim>\<open>any\<close>) are a datatype with the nil interface as a
  value of its own; an \<^verbatim>\<open>error\<close> is represented by its message, and an absent error by
  \<open>None\<close>. Argument mappings (\<^verbatim>\<open>map[string]any\<close>) are association lists read with
  \<open>map_of\<close>: the code only looks keys up and serialises the mapping.
\<close>

datatype any = ANil | ABool bool | ANum int | AStr string
  | AList "any list" | AMap "(string \<times> any) list"

type_synonym error = string

datatype MessageRole = RoleSystem | RoleUser | RoleAssistant | RoleTool

record ToolCall =
  ID :: string
  Name :: string
  Arguments :: "(string \<times> any) list"

record TokenUsage =
  InputTokens :: int
  OutputTokens :: int

record Message =
  Role :: MessageRole
  Content :: string
  MsgToolCalls :: "ToolCall list"
  MsgTokenUsage :: "TokenUsage option"
  MsgImages :: "string list"

text \<open>
  A point in time is the reading of a clock, a natural number; \<open>0\<close> stands for the zero
  value of \<^verbatim>\<open>time.Time\<close> that an unset field holds.
\<close>

record Timing =
  StartTime :: nat
  EndTime :: nat
  Duration :: int

definition NewTiming :: "nat \<Rightarrow> nat \<Rightarrow> Timing" where
  \<comment> \<open>\<open>NewTiming start\<close>, with the reading \<open>now\<close> that its \<^verbatim>\<open>time.Now()\<close> returns\<close>
  "NewTiming start now = \<lparr>StartTime = start, EndTime = now, Duration = int now - int start\<rparr>"

record TaskStep =
  Task :: string
  TaskImages :: "string list"

record ActionStep =
  StepNumber :: int
  Timing :: Timing
  ModelOutput :: string
  CodeAction :: string
  ToolCalls :: "ToolCall list"
  Observations :: string
  Error :: "error option"
  TokenUsage :: "TokenUsage option"
  IsFinal :: bool

record PlanningStep =
  Plan :: string
  PlanTiming :: Timing
  PlanTokenUsage :: "TokenUsage option"

record FinalAnswerStep =
  Output :: any

datatype Step =
    Task_Step TaskStep
  | Action_Step ActionStep
  | Planning_Step PlanningStep
  | FinalAnswer_Step FinalAnswerStep

text \<open>
  Library functions the code calls and this development does not define
  (\<^verbatim>\<open>json.Marshal\<close>, \<^verbatim>\<open>json.Unmarshal\<close>, the \<^verbatim>\<open>%v\<close> verb of \<^verbatim>\<open>fmt\<close> for a value
  and for a \<^verbatim>\<open>time.Duration\<close>) are carried in a record and stay arbitrary in every theorem. \<open>json_Unmarshal\<close> returns \<open>None\<close> where
  the Go function returns an error.
\<close>

record golib =
  json_Marshal :: "any \<Rightarrow> string"
  json_Unmarshal :: "string \<Rightarrow> any option"
  fmt_v :: "any \<Rightarrow> string"
  fmt_Duration :: "nat \<Rightarrow> string"

definition mkMessage :: "MessageRole \<Rightarrow> string \<Rightarrow> Message" where
  \<comment> \<open>the composite literal \<^verbatim>\<open>Message{Role: r, Content: c}\<close>\<close>
  "mkMessage r c =
     \<lparr>Role = r, Content = c, MsgToolCalls = [], MsgTokenUsage = None, MsgImages = []\<rparr>"

definition formatToolCalls :: "golib \<Rightarrow> ToolCall list \<Rightarrow> string" where
  "formatToolCalls L toolCalls =
     (let calls = map (\<lambda>tc. AMap
            [(''id'', AStr (ID tc)),
             (''type'', AStr ''function''),
             (''function'', AMap [(''name'', AStr (Name tc)),
                                  (''arguments'', AMap (Arguments tc))])]) toolCalls
      in ''Calling tools:\<newline>'' @ json_Marshal L (AList calls))"

definition ActionStep_ToMessages :: "golib \<Rightarrow> ActionStep \<Rightarrow> Message list" where
  "ActionStep_ToMessages L s =
     (let msgs = [];
          msgs = (if ModelOutput s \<noteq> ''''
                  then msgs @ [mkMessage RoleAssistant (ModelOutput s)] else msgs);
          msgs = (if length (ToolCalls s) > 0
                  then msgs @ [mkMessage RoleAssistant (formatToolCalls L (ToolCalls s))]
                  else msgs);
          msgs = (if Observations s \<noteq> ''''
                  then msgs @ [mkMessage RoleUser (''Observation:\<newline>'' @ Observations s)]
                  else msgs);
          msgs = (case Error s of
                    Some e \<Rightarrow> msgs @ [mkMessage RoleUser
                       (''Error:\<newline>'' @ e @ ''\<newline>Please try again or use another approach.'')]
                  | None \<Rightarrow> msgs)
      in msgs)"

definition TaskStep_ToMessages :: "TaskStep \<Rightarrow> Message list" where
  "TaskStep_ToMessages s = [mkMessage RoleUser (''Task:\<newline>'' @ Task s)]"

definition PlanningStep_ToMessages :: "PlanningStep \<Rightarrow> Message list" where
  "PlanningStep_ToMessages s =
     [mkMessage RoleAssistant (Plan s),
      mkMessage RoleUser ''Now proceed and carry out this plan.'']"

definition FinalAnswerStep_ToMessages :: "FinalAnswerStep \<Rightarrow> Message list" where
  "FinalAnswerStep_ToMessages s = []"

fun StepType :: "Step \<Rightarrow> string" where
  "StepType (Task_Step s) = ''task''"
| "StepType (Action_Step s) = ''action''"
| "StepType (Planning_Step s) = ''planning''"
| "StepType (FinalAnswer_Step s) = ''final_answer''"

fun Step_ToMessages :: "golib \<Rightarrow> Step \<Rightarrow> Message list" where
  "Step_ToMessages L (Task_Step s) = TaskStep_ToMessages s"
| "Step_ToMessages L (Action_Step s) = ActionStep_ToMessages L s"
| "Step_ToMessages L (Planning_Step s) = PlanningStep_ToMessages s"
| "Step_ToMessages L (FinalAnswer_Step s) = FinalAnswerStep_ToMessages s"

section \<open>Memory (memory.go)\<close>

record Memory =
  SystemPrompt :: string
  Steps :: "Step list"

definition NewMemory :: "string \<Rightarrow> Memory" where
  "NewMemory systemPrompt = \<lparr>SystemPrompt = systemPrompt, Steps = []\<rparr>"

definition Reset_Memory :: "Memory \<Rightarrow> Memory" where
  "Reset_Memory m = m\<lparr>Steps := []\<rparr>"

definition AddStep :: "Step \<Rightarrow> Memory \<Rightarrow> Memory" where
  "AddStep step m = m\<lparr>Steps := Steps m @ [step]\<rparr>"

definition ToMessages :: "golib \<Rightarrow> Memory \<Rightarrow> Message list" where
  \<comment> \<open>the loop appends each step's messages to \<open>msgs\<close>, first to last\<close>
  "ToMessages L m =
     foldl (\<lambda>msgs step. msgs @ Step_ToMessages L step)
       [mkMessage RoleSystem (SystemPrompt m)] (Steps m)"

definition ToMessages_call :: "golib \<Rightarrow> Memory \<Rightarrow> Message list \<times> Memory" where
  \<comment> \<open>one call of \<^verbatim>\<open>m.ToMessages()\<close> as a state transformer: the method writes no field
      of the receiver, so the memory it leaves is the one it was given\<close>
  "ToMessages_call L m = (ToMessages L m, m)"

definition addUsage :: "TokenUsage \<Rightarrow> TokenUsage option \<Rightarrow> TokenUsage" where
  "addUsage acc u =
     (case u of
        Some t \<Rightarrow> \<lparr>InputTokens = InputTokens acc + InputTokens t,
                   OutputTokens = OutputTokens acc + OutputTokens t\<rparr>
      | None \<Rightarrow> acc)"

definition TotalTokens :: "Memory \<Rightarrow> TokenUsage" where
  "TotalTokens m =
     foldl (\<lambda>acc step.
         (case step of
            Action_Step s \<Rightarrow> addUsage acc (TokenUsage s)
          | Planning_Step s \<Rightarrow> addUsage acc (PlanTokenUsage s)
          | _ \<Rightarrow> acc))
       \<lparr>InputTokens = 0, OutputTokens = 0\<rparr> (Steps m)"

section \<open>Strings (the functions of Go's \<^verbatim>\<open>strings\<close> and \<^verbatim>\<open>regexp\<close> that the code calls)\<close>

text \<open>
  A Go string is a sequence of bytes, as \<open>string\<close> is here. \<open>Index s sub\<close> is the
  position of the first occurrence of \<open>sub\<close> in \<open>s\<close>.
\<close>

fun Index :: "string \<Rightarrow> string \<Rightarrow> nat option" where
  "Index [] sub = (if sub = [] then Some 0 else None)"
| "Index (c # cs) sub =
     (if prefix sub (c # cs) then Some 0 else map_option Suc (Index cs sub))"

definition Contains :: "string \<Rightarrow> string \<Rightarrow> bool" where
  "Contains s sub = (Index s sub \<noteq> None)"

fun Join :: "string list \<Rightarrow> string \<Rightarrow> string" where
  "Join [] sep = ''''"
| "Join [x] sep = x"
| "Join (x # y # ys) sep = x @ sep @ Join (y # ys) sep"

fun Split_newline :: "string \<Rightarrow> string list" where
  \<comment> \<open>\<^verbatim>\<open>strings.Split(s, "\n")\<close>: the pieces between newlines, never an empty list\<close>
  "Split_newline [] = [[]]"
| "Split_newline (c # cs) =
     (let r = Split_newline cs
      in if c = CHR 0x0A then [] # r else (c # hd r) # tl r)"

text \<open>
  \<^verbatim>\<open>strings.TrimSpace\<close> removes leading and trailing white space as Unicode defines it.
  On bytes these are the six ASCII characters and the UTF-8 encodings of U+0085, U+00A0,
  U+1680, U+2000 to U+200A, U+2028, U+2029, U+202F, U+205F and U+3000.
\<close>

definition spaceRunes :: "string list" where
  "spaceRunes =
     [[CHR 0x09], [CHR 0x0A], [CHR 0x0B], [CHR 0x0C], [CHR 0x0D], [CHR 0x20],
      [CHR 0xC2, CHR 0x85], [CHR 0xC2, CHR 0xA0], [CHR 0xE1, CHR 0x9A, CHR 0x80],
      [CHR 0xE2, CHR 0x80, CHR 0x80], [CHR 0xE2, CHR 0x80, CHR 0x81],
      [CHR 0xE2, CHR 0x80, CHR 0x82], [CHR 0xE2, CHR 0x80, CHR 0x83],
      [CHR 0xE2, CHR 0x80, CHR 0x84], [CHR 0xE2, CHR 0x80, CHR 0x85],
      [CHR 0xE2, CHR 0x80, CHR 0x86], [CHR 0xE2, CHR 0x80, CHR 0x87],
      [CHR 0xE2, CHR 0x80, CHR 0x88], [CHR 0xE2, CHR 0x80, CHR 0x89],
      [CHR 0xE2, CHR 0x80, CHR 0x8A], [CHR 0xE2, CHR 0x80, CHR 0xA8],
      [CHR 0xE2, CHR 0x80, CHR 0xA9], [CHR 0xE2, CHR 0x80, CHR 0xAF],
      [CHR 0xE2, CHR 0x81, CHR 0x9F], [CHR 0xE3, CHR 0x80, CHR 0x80]]"

fun dropSpaces :: "string list \<Rightarrow> nat \<Rightarrow> string \<Rightarrow> string" where
  \<comment> \<open>drops the given encodings from the front as long as one of them is there; the
      second argument bounds the number of rounds and is the length of the text where
      it is called\<close>
  "dropSpaces ps 0 s = s"
| "dropSpaces ps (Suc n) s =
     (case find (\<lambda>p. prefix p s) ps of
        Some p \<Rightarrow> dropSpaces ps n (drop (length p) s)
      | None \<Rightarrow> s)"

definition TrimSpace :: "string \<Rightarrow> string" where
  "TrimSpace s =
     (let l = dropSpaces spaceRunes (length s) s
      in rev (dropSpaces (map rev spaceRunes) (length l) (rev l)))"

section \<open>Tools and dispatch (tool.go and \<open>BaseAgent.executeTool\<close>)\<close>

text \<open>
  A tool is known to the run loop by its name and its \<open>Execute\<close> method, a function of
  the argument mapping. A managed agent is known by what its \<open>Run\<close> returns for a task.
\<close>

record RunResult =
  RunOutput :: any
  RunState :: string
  RunSteps :: "Step list"
  RunTokenUsage :: TokenUsage
  RunTiming :: Timing

record Tool =
  ToolName :: string
  Execute :: "(string \<times> any) list \<Rightarrow> error + any"

definition FinalAnswerTool_Execute :: "(string \<times> any) list \<Rightarrow> error + any" where
  "FinalAnswerTool_Execute args =
     (case map_of args ''answer'' of
        None \<Rightarrow> Inl ''missing required argument: answer''
      | Some answer \<Rightarrow> Inr answer)"

definition NewFinalAnswerTool :: Tool where
  "NewFinalAnswerTool = \<lparr>ToolName = ''final_answer'', Execute = FinalAnswerTool_Execute\<rparr>"

type_synonym ToolRegistry = "string \<rightharpoonup> Tool"

definition NewToolRegistry :: ToolRegistry where
  "NewToolRegistry = Map.empty"

definition Register :: "Tool \<Rightarrow> ToolRegistry \<Rightarrow> ToolRegistry" where
  "Register tool r = r(ToolName tool \<mapsto> tool)"

definition Get :: "ToolRegistry \<Rightarrow> string \<Rightarrow> Tool option" where
  "Get r toolName = r toolName"

text \<open>
  Callback handlers are opaque: a handler is identified by a value of type \<open>'h\<close>, and
  calling it is recorded in an event log, as is every append to the memory.
\<close>

datatype 'h event = Appended Step | Called 'h Step

type_synonym 'h CallbackRegistry = "string \<Rightarrow> 'h list"

definition NewCallbackRegistry :: "'h CallbackRegistry" where
  "NewCallbackRegistry = (\<lambda>stepType. [])"

definition Register_Callback :: "string \<Rightarrow> 'h \<Rightarrow> 'h CallbackRegistry \<Rightarrow> 'h CallbackRegistry" where
  "Register_Callback stepType fn r = r(stepType := r stepType @ [fn])"

text \<open>
  The agent's fields that a run only reads. The model is an oracle: what
  \<^verbatim>\<open>Generate\<close> returns at a step number for the rendered history (the options it is
  given are the same at every step). The memory the agent points to is part of the
  run's state below.
\<close>

record 'h BaseAgent =
  agentName :: string
  description :: string
  model :: "int \<Rightarrow> Message list \<Rightarrow> error + Message"
  tools :: ToolRegistry
  managedAgents :: "string \<rightharpoonup> (string \<Rightarrow> error + RunResult)"
  callbacks :: "'h CallbackRegistry"
  maxSteps :: int
  systemPrompt :: string

definition executeTool :: "('h, 'z) BaseAgent_scheme \<Rightarrow> ToolCall \<Rightarrow> error + any" where
  "executeTool a tc =
     (case managedAgents a (Name tc) of
        Some agent \<Rightarrow>
          (let taskArg = (case map_of (Arguments tc) ''task'' of
                            Some (AStr s) \<Rightarrow> s | _ \<Rightarrow> '''')
           in case agent taskArg of
                Inl err \<Rightarrow> Inl err
              | Inr result \<Rightarrow> Inr (RunOutput result))
      | None \<Rightarrow>
          (case Get (tools a) (Name tc) of
             None \<Rightarrow> Inl (''unknown tool: '' @ Name tc)
           | Some tool \<Rightarrow> Execute tool (Arguments tc)))"

section \<open>The state of a run\<close>

text \<open>
  What a run reads from outside: the library functions and the clock (the \<open>k\<close>-th call
  of \<^verbatim>\<open>time.Now()\<close> returns \<open>clock k\<close>). What it changes: the memory, the number of
  clock readings taken, the event log and the local variable \<open>finalOutput\<close>.
\<close>

record Env =
  lib :: golib
  clock :: "nat \<Rightarrow> nat"

record 'h RunSt =
  memory :: Memory
  ticks :: nat
  events :: "'h event list"
  finalOutput :: any

definition time_Now :: "Env \<Rightarrow> ('h, 'z) RunSt_scheme \<Rightarrow> nat \<times> ('h, 'z) RunSt_scheme" where
  "time_Now E s = (clock E (ticks s), s\<lparr>ticks := Suc (ticks s)\<rparr>)"

definition memory_AddStep :: "Step \<Rightarrow> ('h, 'z) RunSt_scheme \<Rightarrow> ('h, 'z) RunSt_scheme" where
  "memory_AddStep step s =
     s\<lparr>memory := AddStep step (memory s), events := events s @ [Appended step]\<rparr>"

definition Trigger :: "'h CallbackRegistry \<Rightarrow> Step \<Rightarrow> ('h, 'z) RunSt_scheme \<Rightarrow> ('h, 'z) RunSt_scheme" where
  "Trigger r step s =
     (let s = s\<lparr>events := events s @ map (\<lambda>fn. Called fn step) (r (StepType step))\<rparr>
      in s\<lparr>events := events s @ map (\<lambda>fn. Called fn step) (r ''all'')\<rparr>)"

definition finishTiming :: "Env \<Rightarrow> ActionStep \<Rightarrow> ('h, 'z) RunSt_scheme \<Rightarrow> ActionStep \<times> ('h, 'z) RunSt_scheme" where
  \<comment> \<open>\<^verbatim>\<open>actionStep.Timing = NewTiming(actionStep.Timing.StartTime)\<close>\<close>
  "finishTiming E actionStep s =
     (let (now, s) = time_Now E s
      in (actionStep\<lparr>Timing := NewTiming (StartTime (Timing actionStep)) now\<rparr>, s))"

definition newActionStep :: "int \<Rightarrow> nat \<Rightarrow> ActionStep" where
  \<comment> \<open>\<^verbatim>\<open>&ActionStep{StepNumber: step, Timing: Timing{StartTime: time.Now()}}\<close>\<close>
  "newActionStep step now =
     \<lparr>StepNumber = step, Timing = \<lparr>StartTime = now, EndTime = 0, Duration = 0\<rparr>,
      ModelOutput = '''', CodeAction = '''', ToolCalls = [], Observations = '''',
      Error = None, TokenUsage = None, IsFinal = False\<rparr>"

record RunOptions =
  MaxSteps :: int
  Reset :: bool
  Images :: "string list"
  ExtraArgs :: "(string \<times> any) list"

definition runOptions :: "('h, 'z) BaseAgent_scheme \<Rightarrow> (RunOptions \<Rightarrow> RunOptions) list \<Rightarrow> RunOptions" where
  \<comment> \<open>the options a run starts from, with the functional options applied in order\<close>
  "runOptions a opts =
     fold (\<lambda>opt options. opt options) opts
       \<lparr>MaxSteps = maxSteps a, Reset = True, Images = [], ExtraArgs = []\<rparr>"

definition WithMaxSteps :: "int \<Rightarrow> RunOptions \<Rightarrow> RunOptions" where
  "WithMaxSteps n opts = opts\<lparr>MaxSteps := n\<rparr>"

definition WithReset :: "bool \<Rightarrow> RunOptions \<Rightarrow> RunOptions" where
  "WithReset reset opts = opts\<lparr>Reset := reset\<rparr>"

section \<open>The tool-calling agent (\<open>ToolCallingAgent.Run\<close>)\<close>

fun dispatch :: "golib \<Rightarrow> ('h, 'z) BaseAgent_scheme \<Rightarrow> ToolCall list \<Rightarrow>
    string list \<times> bool \<times> any \<Rightarrow> string list \<times> bool \<times> any" where
  \<comment> \<open>the loop over \<^verbatim>\<open>resp.ToolCalls\<close>; it carries \<open>observations\<close>,
      \<open>actionStep.IsFinal\<close> and \<open>finalOutput\<close>\<close>
  "dispatch L a [] acc = acc"
| "dispatch L a (tc # tcs) (observations, isFinal, out) =
     (case executeTool a tc of
        Inl err \<Rightarrow>
          dispatch L a tcs
            (observations @ [''Error executing '' @ Name tc @ '': '' @ err], isFinal, out)
      | Inr result \<Rightarrow>
          (if Name tc = ''final_answer''
           then dispatch L a tcs (observations @ [fmt_v L result], True, result)
           else dispatch L a tcs (observations @ [fmt_v L result], isFinal, out)))"

text \<open>
  One iteration of the loop of \<open>Run\<close>, after the cancellation check. The result says
  whether the loop is left by \<^verbatim>\<open>break\<close>.
\<close>

definition ToolCalling_step :: "Env \<Rightarrow> ('h, 'z) BaseAgent_scheme \<Rightarrow> int \<Rightarrow> 'h RunSt \<Rightarrow> bool \<times> 'h RunSt" where
  "ToolCalling_step E a step s0 =
     (let (now, s) = time_Now E s0;
          actionStep = newActionStep step now;
          msgs = ToMessages (lib E) (memory s)
      in case model a step msgs of
           Inl err \<Rightarrow>
             (let actionStep = actionStep\<lparr>Error := Some err\<rparr>;
                  (actionStep, s) = finishTiming E actionStep s;
                  s = memory_AddStep (Action_Step actionStep) s
              in (False, s))
         | Inr resp \<Rightarrow>
             (let actionStep = actionStep\<lparr>ModelOutput := Content resp,
                                          TokenUsage := MsgTokenUsage resp\<rparr>;
                  (actionStep, s) =
                    (if length (MsgToolCalls resp) > 0
                     then (let actionStep = actionStep\<lparr>ToolCalls := MsgToolCalls resp\<rparr>;
                               (observations, isFinal, out) =
                                  dispatch (lib E) a (MsgToolCalls resp)
                                    ([], IsFinal actionStep, finalOutput s)
                           in (actionStep\<lparr>IsFinal := isFinal,
                                           Observations := Join observations ''\<newline>''\<rparr>,
                               s\<lparr>finalOutput := out\<rparr>))
                     else (actionStep, s));
                  (actionStep, s) = finishTiming E actionStep s;
                  s = memory_AddStep (Action_Step actionStep) s;
                  s = Trigger (callbacks a) (Action_Step actionStep) s
              in if IsFinal actionStep
                 then (True, memory_AddStep (FinalAnswer_Step \<lparr>Output = finalOutput s\<rparr>) s)
                 else (False, s)))"

text \<open>
  The loop \<^verbatim>\<open>for step := 1; step <= options.MaxSteps; step++\<close>, which both agents
  have, with the rest of the loop body as an argument. The context is an oracle too:
  \<open>ctx step\<close> is what \<^verbatim>\<open>ctx.Err()\<close> returns when it is read at the start of that step.
  The first component of the result is the error the loop returns with.
\<close>

function stepLoop :: "(int \<Rightarrow> 'h RunSt \<Rightarrow> bool \<times> 'h RunSt) \<Rightarrow> (int \<Rightarrow> error option) \<Rightarrow>
    int \<Rightarrow> int \<Rightarrow> 'h RunSt \<Rightarrow> error option \<times> 'h RunSt" where
  "stepLoop body ctx N step s =
     (if step \<le> N
      then (case ctx step of
              Some err \<Rightarrow> (Some err, s)
            | None \<Rightarrow>
                (case body step s of
                   (True, s') \<Rightarrow> (None, s')
                 | (False, s') \<Rightarrow> stepLoop body ctx N (step + 1) s'))
      else (None, s))"
  by pat_completeness auto
termination
  by (relation "measure (\<lambda>(body, ctx, N, step, s). nat (N + 1 - step))") auto

declare stepLoop.simps [simp del]

definition mkResult :: "Env \<Rightarrow> nat \<Rightarrow> 'h RunSt \<Rightarrow> RunResult \<times> 'h RunSt" where
  \<comment> \<open>the end of \<open>Run\<close>: the state tag, the token totals and the result\<close>
  "mkResult E startTime s =
     (let state = (if finalOutput s = ANil then ''max_steps_error'' else ''success'');
          tokens = TotalTokens (memory s);
          (now, s) = time_Now E s
      in (\<lparr>RunOutput = finalOutput s, RunState = state, RunSteps = Steps (memory s),
           RunTokenUsage = tokens, RunTiming = NewTiming startTime now\<rparr>, s))"

text \<open>
  \<open>Run\<close> is given the memory, the clock count and the event log as the agent has them
  (record \<open>s0\<close>; its \<open>finalOutput\<close> is overwritten by the declaration of the local
  variable) and returns the error or the result, and the state it leaves. It holds the
  agent's mutex from its first statement to its return, so the runs of one agent follow
  one another: this is the model of one of them. Step numbers and token counts are
  unbounded integers.
\<close>

definition ToolCallingAgent_Run :: "Env \<Rightarrow> ('h, 'z) BaseAgent_scheme \<Rightarrow> (int \<Rightarrow> error option) \<Rightarrow>
    string \<Rightarrow> (RunOptions \<Rightarrow> RunOptions) list \<Rightarrow> 'h RunSt \<Rightarrow> (error + RunResult) \<times> 'h RunSt" where
  "ToolCallingAgent_Run E a ctx task opts s0 =
     (let options = runOptions a opts;
          (startTime, s) = time_Now E s0;
          s = (if Reset options then s\<lparr>memory := Reset_Memory (memory s)\<rparr> else s);
          s = memory_AddStep (Task_Step \<lparr>Task = task, TaskImages = Images options\<rparr>) s;
          s = s\<lparr>finalOutput := ANil\<rparr>
      in case stepLoop (ToolCalling_step E a) ctx (MaxSteps options) 1 s of
           (Some err, s) \<Rightarrow> (Inl err, s)
         | (None, s) \<Rightarrow> (let (result, s) = mkResult E startTime s in (Inr result, s)))"

definition NewToolCallingAgent :: "(ToolRegistry \<Rightarrow> string) \<Rightarrow> ('h BaseAgent \<Rightarrow> 'h BaseAgent) list \<Rightarrow>
    'h BaseAgent \<times> Memory" where
  \<comment> \<open>the first argument is \<open>defaultToolCallingPrompt\<close>; the zero value of the model
      is an oracle that always fails\<close>
  "NewToolCallingAgent defaultPrompt opts =
     (let a = \<lparr>agentName = '''', description = '''',
               model = (\<lambda>step msgs. Inl ''nil model''),
               tools = Register NewFinalAnswerTool NewToolRegistry,
               managedAgents = Map.empty, callbacks = NewCallbackRegistry,
               maxSteps = 20, systemPrompt = ''''\<rparr>;
          a = fold (\<lambda>opt a. opt a) opts a;
          a = (if systemPrompt a = '''' then a\<lparr>systemPrompt := defaultPrompt (tools a)\<rparr> else a)
      in (a, NewMemory (systemPrompt a)))"

definition WithModel :: "(int \<Rightarrow> Message list \<Rightarrow> error + Message) \<Rightarrow> 'h BaseAgent \<Rightarrow> 'h BaseAgent" where
  "WithModel m a = a\<lparr>model := m\<rparr>"

definition WithAgentMaxSteps :: "int \<Rightarrow> 'h BaseAgent \<Rightarrow> 'h BaseAgent" where
  "WithAgentMaxSteps n a = a\<lparr>maxSteps := n\<rparr>"

definition WithToolList :: "Tool list \<Rightarrow> 'h BaseAgent \<Rightarrow> 'h BaseAgent" where
  "WithToolList ts a = a\<lparr>tools := fold Register ts (tools a)\<rparr>"

definition WithManagedAgents :: "(string \<times> (string \<Rightarrow> error + RunResult)) list \<Rightarrow> 'h BaseAgent \<Rightarrow> 'h BaseAgent" where
  \<comment> \<open>each agent is given with its \<open>Name()\<close>\<close>
  "WithManagedAgents agents a =
     a\<lparr>managedAgents := fold (\<lambda>(n, agent) m. m(n \<mapsto> agent)) agents (managedAgents a)\<rparr>"

section \<open>The code agent (\<open>CodeAgent.Run\<close>)\<close>

definition findCodeTag :: "string \<Rightarrow> string option" where
  \<comment> \<open>group 1 of the first match of \<^verbatim>\<open>(?s)<code>(.*?)(?:</code>|$)\<close>, \<open>None\<close> when the
      text has no match: the match starts at the first \<^verbatim>\<open><code>\<close> and the lazy group
      runs to the first \<^verbatim>\<open></code>\<close> after it, or to the end of the text\<close>
  "findCodeTag text =
     (case Index text ''<code>'' of
        None \<Rightarrow> None
      | Some i \<Rightarrow>
          (let rest = drop (i + 6) text
           in Some (case Index rest ''</code>'' of
                      Some j \<Rightarrow> take j rest
                    | None \<Rightarrow> rest)))"

definition findFence :: "string \<Rightarrow> string option" where
  \<comment> \<open>group 1 of the first match of \<^verbatim>\<open>(?s)```(?:python|py)?\n?(.*?)(?:```|$)\<close>: after the
      first fence the greedy options take \<^verbatim>\<open>python\<close>, else \<^verbatim>\<open>py\<close>, then one newline,
      where they are there\<close>
  "findFence text =
     (case Index text ''```'' of
        None \<Rightarrow> None
      | Some i \<Rightarrow>
          (let rest = drop (i + 3) text;
               rest = (if prefix ''python'' rest then drop 6 rest
                       else if prefix ''py'' rest then drop 2 rest else rest);
               rest = (if prefix ''\<newline>'' rest then drop 1 rest else rest)
           in Some (case Index rest ''```'' of
                      Some j \<Rightarrow> take j rest
                    | None \<Rightarrow> rest)))"

definition parseCodeBlock :: "string \<Rightarrow> string" where
  "parseCodeBlock text =
     (case findCodeTag text of
        Some m \<Rightarrow>
          (if TrimSpace m \<noteq> '''' then TrimSpace m
           else (case findFence text of
                   Some m' \<Rightarrow> (if TrimSpace m' \<noteq> '''' then TrimSpace m' else '''')
                 | None \<Rightarrow> ''''))
      | None \<Rightarrow>
          (case findFence text of
             Some m' \<Rightarrow> (if TrimSpace m' \<noteq> '''' then TrimSpace m' else '''')
           | None \<Rightarrow> ''''))"

definition isFinalAnswer :: "string \<Rightarrow> bool" where
  "isFinalAnswer code = Contains code ''final_answer(''"

text \<open>
  The executor is an oracle as the model is: \<open>executor a step code state\<close> is what
  \<^verbatim>\<open>Execute\<close> returns at that step, as output, logs and error.
\<close>

record 'h CodeAgent = "'h BaseAgent" +
  executor :: "int \<Rightarrow> string \<Rightarrow> (string \<times> any) list \<Rightarrow> any \<times> string \<times> error option"
  execState :: "(string \<times> any) list"

definition Code_step :: "Env \<Rightarrow> ('h, 'z) CodeAgent_scheme \<Rightarrow> (string \<times> any) list \<Rightarrow> int \<Rightarrow>
    'h RunSt \<Rightarrow> bool \<times> 'h RunSt" where
  "Code_step E a state step s0 =
     (let (now, s) = time_Now E s0;
          actionStep = newActionStep step now;
          msgs = ToMessages (lib E) (memory s)
      in case model a step msgs of
           Inl err \<Rightarrow>
             (let actionStep = actionStep\<lparr>Error := Some err\<rparr>
              in (False, memory_AddStep (Action_Step actionStep) s))
         | Inr resp \<Rightarrow>
             (let actionStep = actionStep\<lparr>ModelOutput := Content resp,
                                          TokenUsage := MsgTokenUsage resp\<rparr>;
                  code = parseCodeBlock (Content resp)
              in if code = ''''
                 then (let actionStep = actionStep\<lparr>Error := Some ''no code block found''\<rparr>
                       in (False, memory_AddStep (Action_Step actionStep) s))
                 else
                   (let actionStep = actionStep\<lparr>CodeAction := code\<rparr>;
                        (output, logs, err) = executor a step code state;
                        (actionStep, s) =
                          (case err of
                             Some e \<Rightarrow> (actionStep\<lparr>Error := Some e, Observations := logs\<rparr>, s)
                           | None \<Rightarrow>
                               (let actionStep = actionStep\<lparr>Observations := logs\<rparr>
                                in if isFinalAnswer code
                                   then (actionStep\<lparr>IsFinal := True\<rparr>, s\<lparr>finalOutput := output\<rparr>)
                                   else (actionStep, s)));
                        (actionStep, s) = finishTiming E actionStep s;
                        s = memory_AddStep (Action_Step actionStep) s;
                        s = Trigger (callbacks a) (Action_Step actionStep) s
                    in if IsFinal actionStep
                       then (True, memory_AddStep (FinalAnswer_Step \<lparr>Output = finalOutput s\<rparr>) s)
                       else (False, s))))"

definition CodeAgent_Run :: "Env \<Rightarrow> ('h, 'z) CodeAgent_scheme \<Rightarrow> (int \<Rightarrow> error option) \<Rightarrow>
    string \<Rightarrow> (RunOptions \<Rightarrow> RunOptions) list \<Rightarrow> 'h RunSt \<Rightarrow>
    (error + RunResult) \<times> ('h, 'z) CodeAgent_scheme \<times> 'h RunSt" where
  \<comment> \<open>the agent is returned too: a reset replaces its \<open>execState\<close>\<close>
  "CodeAgent_Run E a0 ctx task opts s0 =
     (let options = runOptions a0 opts;
          (startTime, s) = time_Now E s0;
          (a, s) = (if Reset options
                    then (a0\<lparr>execState := []\<rparr>, s\<lparr>memory := Reset_Memory (memory s)\<rparr>)
                    else (a0, s));
          s = memory_AddStep (Task_Step \<lparr>Task = task, TaskImages = []\<rparr>) s;
          s = s\<lparr>finalOutput := ANil\<rparr>
      in case stepLoop (Code_step E a (execState a)) ctx (MaxSteps options) 1 s of
           (Some err, s) \<Rightarrow> (Inl err, a, s)
         | (None, s) \<Rightarrow> (let (result, s) = mkResult E startTime s in (Inr result, a, s)))"

definition NewCodeAgent :: "(ToolRegistry \<Rightarrow> string) \<Rightarrow>
    (int \<Rightarrow> string \<Rightarrow> (string \<times> any) list \<Rightarrow> any \<times> string \<times> error option) \<Rightarrow>
    ('h BaseAgent \<Rightarrow> 'h BaseAgent) list \<Rightarrow> 'h CodeAgent \<times> Memory" where
  \<comment> \<open>the first argument is \<open>defaultCodeAgentPrompt\<close>; the options act on the embedded
      \<open>BaseAgent\<close>\<close>
  "NewCodeAgent defaultPrompt ex opts =
     (let b = \<lparr>agentName = '''', description = '''',
               model = (\<lambda>step msgs. Inl ''nil model''),
               tools = Register NewFinalAnswerTool NewToolRegistry,
               managedAgents = Map.empty, callbacks = NewCallbackRegistry,
               maxSteps = 20, systemPrompt = ''''\<rparr>;
          b = fold (\<lambda>opt b. opt b) opts b;
          b = (if systemPrompt b = '''' then b\<lparr>systemPrompt := defaultPrompt (tools b)\<rparr> else b)
      in (BaseAgent.extend b (CodeAgent.fields ex []), NewMemory (systemPrompt b)))"

section \<open>The executors (\<open>PythonExecutor.Execute\<close> and \<open>DockerExecutor.Execute\<close>)\<close>

text \<open>
  \<open>Execute\<close> starts the interpreter in a goroutine and waits for it or for the timer.
  Which of the two cases of the \<^verbatim>\<open>select\<close> is taken, and what the process has written
  when it is done, is given from outside. Besides its three results, the model of
  \<open>Execute\<close> returns the operations it has performed on the process.
\<close>

record ProcResult =
  stdout :: string
  stderr :: string
  runErr :: "error option"

datatype select_case = case_done ProcResult | case_timeout

datatype proc_op = Start | Kill

record PythonExecutor =
  pythonPath :: string
  timeout :: nat
  allowedImports :: "string list"

record DockerExecutor =
  dockerImage :: string
  dockerTimeout :: nat

definition TrimPrefix :: "string \<Rightarrow> string \<Rightarrow> string" where
  "TrimPrefix s p = (if prefix p s then drop (length p) s else s)"

definition unmarshalAny :: "golib \<Rightarrow> string \<Rightarrow> any" where
  \<comment> \<open>\<^verbatim>\<open>var result any; json.Unmarshal([]byte(resultJSON), &result)\<close>, the error dropped\<close>
  "unmarshalAny L resultJSON = (case json_Unmarshal L resultJSON of Some v \<Rightarrow> v | None \<Rightarrow> ANil)"

definition PythonExecutor_Execute :: "golib \<Rightarrow> PythonExecutor \<Rightarrow> string \<Rightarrow> (string \<times> any) list \<Rightarrow>
    select_case \<Rightarrow> (any \<times> string \<times> error option) \<times> proc_op list" where
  "PythonExecutor_Execute L e code state sel =
     (case sel of
        case_done r \<Rightarrow>
          (let logs = stdout r
           in case runErr r of
                Some err \<Rightarrow> ((ANil, logs, Some (err @ '': '' @ stderr r)), [Start])
              | None \<Rightarrow>
                  (let lines = Split_newline (TrimSpace logs)
                   in if length lines = 0 then ((ANil, logs, None), [Start])
                      else
                        (let lastLine = lines ! (length lines - 1)
                         in if prefix ''__RESULT__:'' lastLine
                            then (let resultJSON = TrimPrefix lastLine ''__RESULT__:'';
                                      result = unmarshalAny L resultJSON
                                  in ((result, Join (take (length lines - 1) lines) ''\<newline>'', None),
                                      [Start]))
                            else ((ANil, logs, None), [Start]))))
      | case_timeout \<Rightarrow>
          ((ANil, '''', Some (''execution timeout after '' @ fmt_Duration L (timeout e))),
           [Start, Kill]))"

definition DockerExecutor_Execute :: "golib \<Rightarrow> DockerExecutor \<Rightarrow> string \<Rightarrow> (string \<times> any) list \<Rightarrow>
    select_case \<Rightarrow> (any \<times> string \<times> error option) \<times> proc_op list" where
  "DockerExecutor_Execute L e code state sel =
     (case sel of
        case_done r \<Rightarrow>
          (let logs = stdout r
           in case runErr r of
                Some err \<Rightarrow> ((ANil, logs, Some (err @ '': '' @ stderr r)), [Start])
              | None \<Rightarrow>
                  (let lines = Split_newline (TrimSpace logs)
                   in if length lines > 0 \<and> prefix ''__RESULT__:'' (lines ! (length lines - 1))
                      then (let resultJSON = drop (length ''__RESULT__:'') (lines ! (length lines - 1));
                                result = unmarshalAny L resultJSON
                            in ((result, Join (take (length lines - 1) lines) ''\<newline>'', None),
                                [Start]))
                      else ((ANil, logs, None), [Start])))
      | case_timeout \<Rightarrow> ((ANil, '''', Some ''docker execution timeout''), [Start]))"

section \<open>Notions used in the statements\<close>

text \<open>The line that the dispatch loop records for one tool call.\<close>

definition observation :: "golib \<Rightarrow> ('h, 'z) BaseAgent_scheme \<Rightarrow> ToolCall \<Rightarrow> string" where
  "observation L a tc =
     (case executeTool a tc of
        Inl err \<Rightarrow> ''Error executing '' @ Name tc @ '': '' @ err
      | Inr result \<Rightarrow> fmt_v L result)"

text \<open>
  The result line as the specification words it: the last non-empty line of a text,
  when it carries the sentinel prefix, with the lines before it.
\<close>

definition lastNonEmptyLine :: "string list \<Rightarrow> (string list \<times> string) option" where
  "lastNonEmptyLine ls =
     (case dropWhile (\<lambda>l. l = '''') (rev ls) of
        [] \<Rightarrow> None
      | l # before \<Rightarrow> Some (rev before, l))"

definition resultLine :: "string \<Rightarrow> (string list \<times> string) option" where
  "resultLine t =
     (case lastNonEmptyLine (Split_newline t) of
        Some (before, l) \<Rightarrow> (if prefix ''__RESULT__:'' l then Some (before, l) else None)
      | None \<Rightarrow> None)"

section \<open>Example inputs\<close>

text \<open>
  Concrete library functions, a clock, contexts and agents, on which the theorems
  below are evaluated. Handlers are numbers here.
\<close>

definition exLib :: golib where
  "exLib =
     \<lparr>json_Marshal = (\<lambda>v. ''[]''),
      json_Unmarshal = (\<lambda>s. if s = ''42'' then Some (ANum 42) else None),
      fmt_v = (\<lambda>v. case v of AStr s \<Rightarrow> s | _ \<Rightarrow> ''<value>''),
      fmt_Duration = (\<lambda>d. ''30s'')\<rparr>"

definition exEnv :: Env where
  "exEnv = \<lparr>lib = exLib, clock = (\<lambda>k. 100 + k)\<rparr>"

definition exPrompt :: "ToolRegistry \<Rightarrow> string" where
  "exPrompt r = ''You are an expert assistant.''"

definition ctxBackground :: "int \<Rightarrow> error option" where
  "ctxBackground step = None"

definition ctxCancelled :: "int \<Rightarrow> error option" where
  "ctxCancelled step = Some ''context canceled''"

definition mkCall :: "string \<Rightarrow> (string \<times> any) list \<Rightarrow> ToolCall" where
  "mkCall n args = \<lparr>ID = ''call_1'', Name = n, Arguments = args\<rparr>"

definition mkResponse :: "string \<Rightarrow> ToolCall list \<Rightarrow> Message" where
  "mkResponse text calls =
     \<lparr>Role = RoleAssistant, Content = text, MsgToolCalls = calls, MsgTokenUsage = None,
      MsgImages = []\<rparr>"

definition freshState :: "string \<Rightarrow> nat RunSt" where
  \<comment> \<open>the state of an agent that has not run yet\<close>
  "freshState prompt = \<lparr>memory = NewMemory prompt, ticks = 0, events = [], finalOutput = ANil\<rparr>"

definition usedState :: "nat RunSt" where
  \<comment> \<open>the state of an agent after an earlier run that recorded a task\<close>
  "usedState =
     \<lparr>memory = \<lparr>SystemPrompt = ''You are an expert assistant.'',
                 Steps = [Task_Step \<lparr>Task = ''earlier task'', TaskImages = []\<rparr>]\<rparr>,
      ticks = 5, events = [], finalOutput = ANil\<rparr>"

definition searchModel :: "int \<Rightarrow> Message list \<Rightarrow> error + Message" where
  \<comment> \<open>a model that asks for a tool nobody registered, at every step\<close>
  "searchModel step msgs = Inr (mkResponse ''Let me search.'' [mkCall ''search'' [(''q'', AStr ''go'')]])"

definition answerModel :: "int \<Rightarrow> Message list \<Rightarrow> error + Message" where
  \<comment> \<open>a model that gives the final answer at once\<close>
  "answerModel step msgs = Inr (mkResponse '''' [mkCall ''final_answer'' [(''answer'', AStr ''42'')]])"

definition noArgModel :: "int \<Rightarrow> Message list \<Rightarrow> error + Message" where
  \<comment> \<open>a model that calls \<^verbatim>\<open>final_answer\<close> without its argument\<close>
  "noArgModel step msgs = Inr (mkResponse '''' [mkCall ''final_answer'' []])"

definition nilAnswerModel :: "int \<Rightarrow> Message list \<Rightarrow> error + Message" where
  \<comment> \<open>a model whose final answer is the JSON value \<^verbatim>\<open>null\<close>\<close>
  "nilAnswerModel step msgs = Inr (mkResponse '''' [mkCall ''final_answer'' [(''answer'', ANil)]])"

definition failingModel :: "int \<Rightarrow> Message list \<Rightarrow> error + Message" where
  "failingModel step msgs = Inl ''connection refused''"

definition exAgent :: "(int \<Rightarrow> Message list \<Rightarrow> error + Message) \<Rightarrow> int \<Rightarrow> nat BaseAgent" where
  \<comment> \<open>a tool-calling agent with the given model and step budget, handler 3 registered
      for Action steps and handlers 7 and 8, in this order, for all steps\<close>
  "exAgent m n =
     (fst (NewToolCallingAgent exPrompt [WithModel m, WithAgentMaxSteps n]))
       \<lparr>callbacks := Register_Callback ''all'' 8 (Register_Callback ''action'' 3
                       (Register_Callback ''all'' 7 NewCallbackRegistry))\<rparr>"

definition echoTool :: Tool where
  "echoTool =
     \<lparr>ToolName = ''echo'',
      Execute = (\<lambda>args. case map_of args ''text'' of
                          Some v \<Rightarrow> Inr v | None \<Rightarrow> Inl ''nothing to echo'')\<rparr>"

definition shadowedTool :: Tool where
  \<comment> \<open>a plain tool registered under the name of a managed agent\<close>
  "shadowedTool = \<lparr>ToolName = ''researcher'', Execute = (\<lambda>args. Inr (AStr ''from the tool''))\<rparr>"

definition researcher :: "string \<Rightarrow> error + RunResult" where
  \<comment> \<open>the \<open>Run\<close> of a managed agent\<close>
  "researcher task =
     Inr \<lparr>RunOutput = AStr (''report on '' @ task), RunState = ''success'', RunSteps = [],
          RunTokenUsage = \<lparr>InputTokens = 0, OutputTokens = 0\<rparr>,
          RunTiming = \<lparr>StartTime = 0, EndTime = 0, Duration = 0\<rparr>\<rparr>"

definition teamCalls :: "ToolCall list" where
  "teamCalls =
     [mkCall ''search'' [(''q'', AStr ''go'')],
      mkCall ''echo'' [(''text'', AStr ''hello'')],
      mkCall ''researcher'' [(''task'', AStr ''go'')]]"

definition teamModel :: "int \<Rightarrow> Message list \<Rightarrow> error + Message" where
  "teamModel step msgs = Inr (mkResponse ''Three calls.'' teamCalls)"

definition teamAgent :: "nat BaseAgent" where
  "teamAgent =
     fst (NewToolCallingAgent exPrompt
            [WithModel teamModel, WithToolList [echoTool, shadowedTool],
             WithManagedAgents [(''researcher'', researcher)]])"

definition exPython :: PythonExecutor where
  "exPython = \<lparr>pythonPath = ''python3'', timeout = 30, allowedImports = [''math'', ''json'']\<rparr>"

definition exDocker :: DockerExecutor where
  "exDocker = \<lparr>dockerImage = ''python:3.11-slim'', dockerTimeout = 30\<rparr>"

definition answerOutput :: ProcResult where
  \<comment> \<open>what the wrapped code prints when it calls \<^verbatim>\<open>final_answer(42)\<close>\<close>
  "answerOutput =
     \<lparr>stdout = ''Final Answer: 42\<newline>__RESULT__:42\<newline>'', stderr = '''', runErr = None\<rparr>"

definition okExecutor :: "int \<Rightarrow> string \<Rightarrow> (string \<times> any) list \<Rightarrow> any \<times> string \<times> error option" where
  \<comment> \<open>the local executor when the process ends in time with that output\<close>
  "okExecutor step code state =
     fst (PythonExecutor_Execute exLib exPython code state (case_done answerOutput))"

definition slowExecutor :: "int \<Rightarrow> string \<Rightarrow> (string \<times> any) list \<Rightarrow> any \<times> string \<times> error option" where
  \<comment> \<open>the local executor when the timer fires first\<close>
  "slowExecutor step code state =
     fst (PythonExecutor_Execute exLib exPython code state case_timeout)"

definition codeModel :: "int \<Rightarrow> Message list \<Rightarrow> error + Message" where
  "codeModel step msgs = Inr (mkResponse ''Thought: done.\<newline><code>final_answer(42)'' [])"


definition exCodeAgent :: "(int \<Rightarrow> Message list \<Rightarrow> error + Message) \<Rightarrow>
    (int \<Rightarrow> string \<Rightarrow> (string \<times> any) list \<Rightarrow> any \<times> string \<times> error option) \<Rightarrow> int \<Rightarrow> nat CodeAgent" where
  \<comment> \<open>a code agent with handler 3 registered for Action steps and handler 7 for all\<close>
  "exCodeAgent m ex n =
     (fst (NewCodeAgent exPrompt ex [WithModel m, WithAgentMaxSteps n]))
       \<lparr>callbacks := Register_Callback ''action'' 3
                       (Register_Callback ''all'' 7 NewCallbackRegistry)\<rparr>"

section \<open>Rendering the history\<close>

lemma foldl_append_concat:
  "foldl (\<lambda>msgs step. msgs @ f step) acc xs = acc @ concat (map f xs)"
  by (induction xs arbitrary: acc) simp_all

lemma ToMessages_concat:
  "ToMessages L m = mkMessage RoleSystem (SystemPrompt m) # concat (map (Step_ToMessages L) (Steps m))"
  by (simp add: ToMessages_def foldl_append_concat)

text \<open>
  C9. For every step sequence held by the memory, \<open>ToMessages\<close> is the system-prompt
  message followed by the renderings of the steps, concatenated in step order; a second
  call on the memory left by a first call returns the same messages (and an appended
  step only adds its own rendering at the end); an Action step with no model text, no
  tool calls, no observations and no error renders to no message.
\<close>

theorem ToMessages_render:
  "ToMessages L m =
     mkMessage RoleSystem (SystemPrompt m) # concat (map (Step_ToMessages L) (Steps m))
   \<and> (let (msgs1, m1) = ToMessages_call L m; (msgs2, m2) = ToMessages_call L m1
      in msgs2 = msgs1 \<and> m2 = m)
   \<and> ToMessages L (AddStep step m) = ToMessages L m @ Step_ToMessages L step
   \<and> Step_ToMessages L (Action_Step
        \<lparr>StepNumber = n, Timing = t, ModelOutput = '''', CodeAction = c, ToolCalls = [],
         Observations = '''', Error = None, TokenUsage = u, IsFinal = f\<rparr>) = []"
  by (simp add: ToMessages_concat ToMessages_call_def AddStep_def ActionStep_ToMessages_def)

section \<open>The dispatch loop and the step loop\<close>

lemma dispatch_append:
  "dispatch L a (xs @ ys) acc = dispatch L a ys (dispatch L a xs acc)"
proof (induction xs arbitrary: acc)
  case Nil
  show ?case by simp
next
  case (Cons tc xs)
  obtain obs f out where acc: "acc = (obs, f, out)" by (cases acc) auto
  show ?case unfolding acc by (simp add: Cons.IH split: sum.splits)
qed

lemma dispatch_observations:
  "fst (dispatch L a tcs (obs, f, out)) = obs @ map (observation L a) tcs"
  by (induction tcs arbitrary: obs f out) (simp_all add: observation_def split: sum.splits)

lemma dispatch_no_final:
  "\<forall>tc \<in> set tcs. Name tc = ''final_answer'' \<longrightarrow> isl (executeTool a tc) \<Longrightarrow>
   snd (dispatch L a tcs (obs, f, out)) = (f, out)"
  by (induction tcs arbitrary: obs f out) (auto split: sum.splits)

lemma ToolCalling_step_Inl:
  assumes "model a step (ToMessages (lib E) (memory s)) = Inl err"
  shows "ToolCalling_step E a step s =
    (False, s\<lparr>memory := AddStep (Action_Step
               ((newActionStep step (clock E (ticks s)))
                 \<lparr>Error := Some err,
                  Timing := NewTiming (clock E (ticks s)) (clock E (Suc (ticks s)))\<rparr>)) (memory s),
             ticks := Suc (Suc (ticks s)),
             events := events s @ [Appended (Action_Step
               ((newActionStep step (clock E (ticks s)))
                 \<lparr>Error := Some err,
                  Timing := NewTiming (clock E (ticks s)) (clock E (Suc (ticks s)))\<rparr>))]\<rparr>)"
  using assms
  by (simp add: ToolCalling_step_def time_Now_def finishTiming_def memory_AddStep_def
      newActionStep_def Let_def)

lemma ToolCalling_step_Inr:
  assumes gen: "model a step (ToMessages (lib E) (memory s)) = Inr resp"
  defines "d \<equiv> dispatch (lib E) a (MsgToolCalls resp) ([], False, finalOutput s)"
  defines "act \<equiv> \<lparr>StepNumber = step,
       Timing = NewTiming (clock E (ticks s)) (clock E (Suc (ticks s))),
       ModelOutput = Content resp, CodeAction = '''', ToolCalls = MsgToolCalls resp,
       Observations = Join (fst d) ''\<newline>'', Error = None,
       TokenUsage = MsgTokenUsage resp, IsFinal = fst (snd d)\<rparr>"
  defines "s1 \<equiv> s\<lparr>memory := AddStep (Action_Step act) (memory s),
       ticks := Suc (Suc (ticks s)),
       events := events s @ [Appended (Action_Step act)]
          @ map (\<lambda>fn. Called fn (Action_Step act)) (callbacks a ''action'')
          @ map (\<lambda>fn. Called fn (Action_Step act)) (callbacks a ''all''),
       finalOutput := snd (snd d)\<rparr>"
  shows "ToolCalling_step E a step s =
    (if fst (snd d)
     then (True, memory_AddStep (FinalAnswer_Step \<lparr>Output = snd (snd d)\<rparr>) s1)
     else (False, s1))"
proof (cases "MsgToolCalls resp")
  case Nil
  then show ?thesis
    using gen unfolding d_def act_def s1_def
    by (simp add: ToolCalling_step_def time_Now_def finishTiming_def memory_AddStep_def
        newActionStep_def Trigger_def Let_def)
next
  case (Cons tc tcs)
  obtain obs f out where dd: "dispatch (lib E) a (tc # tcs) ([], False, finalOutput s) = (obs, f, out)"
    by (cases "dispatch (lib E) a (tc # tcs) ([], False, finalOutput s)") auto
  show ?thesis
    using gen Cons dd unfolding d_def act_def s1_def
    by (simp add: ToolCalling_step_def time_Now_def finishTiming_def memory_AddStep_def
        newActionStep_def Trigger_def Let_def del: dispatch.simps)
qed

lemma stepLoop_done: "N < step \<Longrightarrow> stepLoop body ctx N step s = (None, s)"
  by (subst stepLoop.simps) simp

lemma stepLoop_cancel:
  "step \<le> N \<Longrightarrow> ctx step = Some err \<Longrightarrow> stepLoop body ctx N step s = (Some err, s)"
  by (subst stepLoop.simps) simp

lemma stepLoop_break:
  "step \<le> N \<Longrightarrow> ctx step = None \<Longrightarrow> body step s = (True, s') \<Longrightarrow>
   stepLoop body ctx N step s = (None, s')"
  by (subst stepLoop.simps) simp

lemma stepLoop_continue:
  "step \<le> N \<Longrightarrow> ctx step = None \<Longrightarrow> body step s = (False, s') \<Longrightarrow>
   stepLoop body ctx N step s = stepLoop body ctx N (step + 1) s'"
  by (subst stepLoop.simps) simp

lemma stepLoop_exhaust:
  "n = nat (N + 1 - step) \<Longrightarrow> \<forall>k. step \<le> k \<and> k \<le> N \<longrightarrow> ctx k = None \<Longrightarrow>
   \<forall>k s. step \<le> k \<and> k \<le> N \<longrightarrow>
      (\<exists>s' act. body k s = (False, s') \<and> finalOutput s' = finalOutput s
          \<and> Steps (memory s') = Steps (memory s) @ [Action_Step act]
          \<and> StepNumber act = k \<and> \<not> IsFinal act) \<Longrightarrow>
   \<exists>s' acts. stepLoop body ctx N step s = (None, s') \<and> finalOutput s' = finalOutput s
      \<and> Steps (memory s') = Steps (memory s) @ map Action_Step acts
      \<and> map StepNumber acts = [step..N] \<and> (\<forall>act \<in> set acts. \<not> IsFinal act)"
proof (induction n arbitrary: step s)
  case 0
  then have "N < step" by simp
  then have "stepLoop body ctx N step s = (None, s)" "[step..N] = []"
    by (simp_all add: stepLoop_done)
  then show ?case by simp
next
  case (Suc n)
  then have le: "step \<le> N" by simp
  then have c: "ctx step = None" using Suc.prems by simp
  obtain s' act where b: "body step s = (False, s')" "finalOutput s' = finalOutput s"
      "Steps (memory s') = Steps (memory s) @ [Action_Step act]"
      "StepNumber act = step" "\<not> IsFinal act"
    using Suc.prems(3) le by blast
  have n: "n = nat (N + 1 - (step + 1))" using Suc.prems(1) by simp
  have ctx': "\<forall>k. step + 1 \<le> k \<and> k \<le> N \<longrightarrow> ctx k = None" using Suc.prems(2) by simp
  have body': "\<forall>k s. step + 1 \<le> k \<and> k \<le> N \<longrightarrow>
      (\<exists>s' act. body k s = (False, s') \<and> finalOutput s' = finalOutput s
          \<and> Steps (memory s') = Steps (memory s) @ [Action_Step act]
          \<and> StepNumber act = k \<and> \<not> IsFinal act)"
    using Suc.prems(3) by simp
  obtain s'' acts where r: "stepLoop body ctx N (step + 1) s' = (None, s'')"
      "finalOutput s'' = finalOutput s'"
      "Steps (memory s'') = Steps (memory s') @ map Action_Step acts"
      "map StepNumber acts = [step + 1..N]" "\<forall>act \<in> set acts. \<not> IsFinal act"
    using Suc.IH [OF n ctx' body', of s'] by blast
  have "stepLoop body ctx N step s = (None, s'')"
    using stepLoop_continue [of step N ctx body s s'] le c b(1) r(1) by simp
  moreover have "finalOutput s'' = finalOutput s" using r(2) b(2) by simp
  moreover have "Steps (memory s'') = Steps (memory s) @ map Action_Step (act # acts)"
    using r(3) b(3) by simp
  moreover have "map StepNumber (act # acts) = [step..N]"
    using r(4) b(4) le by (simp add: upto_rec1)
  moreover have "\<forall>x \<in> set (act # acts). \<not> IsFinal x" using r(5) b(5) by simp
  ultimately show ?case by blast
qed

lemma ToolCalling_step_no_final:
  assumes nf: "\<forall>msgs resp. model a k msgs = Inr resp \<longrightarrow>
                 (\<forall>tc \<in> set (MsgToolCalls resp). Name tc \<noteq> ''final_answer'')"
  shows "\<exists>s' act. ToolCalling_step E a k s = (False, s') \<and> finalOutput s' = finalOutput s
           \<and> Steps (memory s') = Steps (memory s) @ [Action_Step act]
           \<and> StepNumber act = k \<and> \<not> IsFinal act"
proof (cases "model a k (ToMessages (lib E) (memory s))")
  case (Inl err)
  show ?thesis
    by (simp add: ToolCalling_step_Inl [OF Inl] AddStep_def newActionStep_def)
next
  case (Inr resp)
  have "\<forall>tc \<in> set (MsgToolCalls resp). Name tc = ''final_answer'' \<longrightarrow> isl (executeTool a tc)"
    using nf Inr by blast
  then have d: "snd (dispatch (lib E) a (MsgToolCalls resp) ([], False, finalOutput s))
      = (False, finalOutput s)"
    by (rule dispatch_no_final)
  show ?thesis
    by (simp add: ToolCalling_step_Inr [OF Inr] d AddStep_def)
qed

subsection \<open>Runs that exhaust the step budget\<close>

text \<open>
  C1 (as amended). Take a run of the tool-calling agent with step budget \<open>N\<close> that starts
  from an empty history (the reset option is on, as by default, or nothing was recorded
  before), whose context is not cancelled at any of the step boundaries \<open>1..N\<close>, and in
  which no tool call of a model response is named \<^verbatim>\<open>final_answer\<close>. Then \<open>Run\<close> returns a
  result with state \<^verbatim>\<open>max_steps_error\<close> and output nil, and its step log is the Task step
  followed by exactly \<open>N\<close> Action steps, numbered \<open>1..N\<close>, none of them final.
  As the claim is written it fails: a cancelled context makes \<open>Run\<close> return an error
  and no result, and without reset the log keeps the steps of earlier runs.
\<close>

theorem Run_exhausted:
  assumes nofinal: "\<forall>k msgs resp. 1 \<le> k \<and> k \<le> MaxSteps (runOptions a opts) \<and> model a k msgs = Inr resp \<longrightarrow>
                 (\<forall>tc \<in> set (MsgToolCalls resp). Name tc \<noteq> ''final_answer'')"
    and nocancel: "\<forall>k. 1 \<le> k \<and> k \<le> MaxSteps (runOptions a opts) \<longrightarrow> ctx k = None"
    and fresh: "Reset (runOptions a opts) \<or> Steps (memory s0) = []"
  shows "\<exists>result s' acts. ToolCallingAgent_Run E a ctx task opts s0 = (Inr result, s')
           \<and> RunState result = ''max_steps_error'' \<and> RunOutput result = ANil
           \<and> RunSteps result =
               Task_Step \<lparr>Task = task, TaskImages = Images (runOptions a opts)\<rparr> # map Action_Step acts
           \<and> map StepNumber acts = [1..MaxSteps (runOptions a opts)]
           \<and> (\<forall>act \<in> set acts. \<not> IsFinal act)"
proof -
  let ?N = "MaxSteps (runOptions a opts)"
  let ?task = "Task_Step \<lparr>Task = task, TaskImages = Images (runOptions a opts)\<rparr>"
  define s1 where "s1 = (memory_AddStep ?task
      ((if Reset (runOptions a opts)
        then (snd (time_Now E s0))\<lparr>memory := Reset_Memory (memory (snd (time_Now E s0)))\<rparr>
        else snd (time_Now E s0))))\<lparr>finalOutput := ANil\<rparr>"
  have steps1: "Steps (memory s1) = [?task]" and out1: "finalOutput s1 = ANil"
    using fresh by (auto simp: s1_def memory_AddStep_def AddStep_def Reset_Memory_def time_Now_def)
  have body: "\<forall>k s. 1 \<le> k \<and> k \<le> ?N \<longrightarrow>
      (\<exists>s' act. ToolCalling_step E a k s = (False, s') \<and> finalOutput s' = finalOutput s
          \<and> Steps (memory s') = Steps (memory s) @ [Action_Step act]
          \<and> StepNumber act = k \<and> \<not> IsFinal act)"
    using nofinal ToolCalling_step_no_final [of a _ E] by blast
  obtain s2 acts where loop: "stepLoop (ToolCalling_step E a) ctx ?N 1 s1 = (None, s2)"
      "finalOutput s2 = finalOutput s1"
      "Steps (memory s2) = Steps (memory s1) @ map Action_Step acts"
      "map StepNumber acts = [1..?N]" "\<forall>act \<in> set acts. \<not> IsFinal act"
    using stepLoop_exhaust [OF refl nocancel body, of s1] by blast
  have run: "ToolCallingAgent_Run E a ctx task opts s0 =
      (Inr (fst (mkResult E (fst (time_Now E s0)) s2)), snd (mkResult E (fst (time_Now E s0)) s2))"
    using loop(1) unfolding ToolCallingAgent_Run_def s1_def
    by (simp add: Let_def split_beta)
  show ?thesis
    using run loop(2-5) steps1 out1
    by (auto simp: mkResult_def Let_def split_beta time_Now_def)
qed

theorem Run_exhausted_witness:
  "Reset (runOptions (exAgent searchModel 2) []) \<and>
   ctxBackground 1 = None \<and> ctxBackground 2 = None \<and>
   (\<exists>result s' acts.
      ToolCallingAgent_Run exEnv (exAgent searchModel 2) ctxBackground ''task'' []
        (freshState ''prompt'') = (Inr result, s')
      \<and> RunState result = ''max_steps_error'' \<and> RunOutput result = ANil
      \<and> RunSteps result = Task_Step \<lparr>Task = ''task'', TaskImages = []\<rparr> # map Action_Step acts
      \<and> map StepNumber acts = [1..2]
      \<and> (\<forall>act \<in> set acts. \<not> IsFinal act))"
proof -
  have opts: "runOptions (exAgent searchModel 2) [] =
      \<lparr>MaxSteps = 2, Reset = True, Images = [], ExtraArgs = []\<rparr>"
    by (simp add: runOptions_def exAgent_def NewToolCallingAgent_def WithModel_def
        WithAgentMaxSteps_def Let_def)
  have m: "model (exAgent searchModel 2) = searchModel"
    by (simp add: exAgent_def NewToolCallingAgent_def WithModel_def WithAgentMaxSteps_def Let_def)
  show ?thesis
    using Run_exhausted [of "exAgent searchModel 2" "[]" ctxBackground "freshState ''prompt''"
        exEnv "''task''"]
    by (simp add: opts m searchModel_def mkResponse_def mkCall_def ctxBackground_def)
qed

theorem Run_exhausted_counterexample:
  "fst (ToolCallingAgent_Run exEnv (exAgent searchModel 2) ctxCancelled ''task'' []
          (freshState ''prompt'')) = Inl ''context canceled''
   \<and> map StepType (Steps (memory (snd
          (ToolCallingAgent_Run exEnv (exAgent searchModel 1) ctxBackground ''task''
             [WithReset False] usedState))))
       = [''task'', ''task'', ''action'']"
  by code_simp

lemma dispatch_final_answer:
  assumes "Name tc = ''final_answer''" and "executeTool a tc = Inr v"
    and "\<forall>t \<in> set post. Name t = ''final_answer'' \<longrightarrow> isl (executeTool a t)"
  shows "snd (dispatch L a (pre @ tc # post) acc) = (True, v)"
proof -
  obtain obs f out where p: "dispatch L a pre acc = (obs, f, out)"
    by (cases "dispatch L a pre acc") auto
  have "dispatch L a (pre @ tc # post) acc = dispatch L a post (obs @ [fmt_v L v], True, v)"
    using assms(1,2) by (simp add: dispatch_append p)
  then show ?thesis using dispatch_no_final [OF assms(3)] by simp
qed

subsection \<open>Runs that end with a final answer\<close>

text \<open>
  C2 (as amended). Take a run of the tool-calling agent with a step budget of at least
  one that starts from an empty history and whose context is not cancelled at step 1.
  If the first model response succeeds and carries a \<^verbatim>\<open>final_answer\<close> call that executes
  without error and returns a value \<open>v\<close> other than nil, and no later \<^verbatim>\<open>final_answer\<close>
  call of the same response succeeds, then \<open>Run\<close> returns a result with state \<^verbatim>\<open>success\<close>
  and output \<open>v\<close>, and the step log is the Task step, one Action step marked final and
  one FinalAnswer step with output \<open>v\<close>.
  As the claim is written it fails: a \<^verbatim>\<open>final_answer\<close> call whose execution returns an
  error does not end the run.
\<close>

theorem Run_completed:
  assumes budget: "1 \<le> MaxSteps (runOptions a opts)"
    and nocancel: "ctx 1 = None"
    and fresh: "Reset (runOptions a opts) \<or> Steps (memory s0) = []"
    and gen: "model a 1 (ToMessages (lib E) ((memory s0)
                \<lparr>Steps := [Task_Step \<lparr>Task = task, TaskImages = Images (runOptions a opts)\<rparr>]\<rparr>))
              = Inr resp"
    and calls: "MsgToolCalls resp = pre @ tc # post"
    and final: "Name tc = ''final_answer''" "executeTool a tc = Inr v" "v \<noteq> ANil"
    and later: "\<forall>t \<in> set post. Name t = ''final_answer'' \<longrightarrow> isl (executeTool a t)"
  shows "\<exists>result s' act. ToolCallingAgent_Run E a ctx task opts s0 = (Inr result, s')
           \<and> RunState result = ''success'' \<and> RunOutput result = v
           \<and> RunSteps result =
               [Task_Step \<lparr>Task = task, TaskImages = Images (runOptions a opts)\<rparr>,
                Action_Step act, FinalAnswer_Step \<lparr>Output = v\<rparr>]
           \<and> StepNumber act = 1 \<and> IsFinal act \<and> ToolCalls act = MsgToolCalls resp"
proof -
  let ?N = "MaxSteps (runOptions a opts)"
  let ?task = "Task_Step \<lparr>Task = task, TaskImages = Images (runOptions a opts)\<rparr>"
  define s1 where "s1 = (memory_AddStep ?task
      ((if Reset (runOptions a opts)
        then (snd (time_Now E s0))\<lparr>memory := Reset_Memory (memory (snd (time_Now E s0)))\<rparr>
        else snd (time_Now E s0))))\<lparr>finalOutput := ANil\<rparr>"
  have mem1: "memory s1 = (memory s0)\<lparr>Steps := [?task]\<rparr>" and out1: "finalOutput s1 = ANil"
    using fresh by (auto simp: s1_def memory_AddStep_def AddStep_def Reset_Memory_def time_Now_def)
  have gen1: "model a 1 (ToMessages (lib E) (memory s1)) = Inr resp"
    using gen mem1 by simp
  have d: "snd (dispatch (lib E) a (MsgToolCalls resp) ([], False, finalOutput s1)) = (True, v)"
    unfolding calls using final(1,2) later by (rule dispatch_final_answer)
  obtain s2 act where step: "ToolCalling_step E a 1 s1 = (True, s2)"
      "finalOutput s2 = v"
      "Steps (memory s2) = [?task, Action_Step act, FinalAnswer_Step \<lparr>Output = v\<rparr>]"
      "StepNumber act = 1" "IsFinal act" "ToolCalls act = MsgToolCalls resp"
    using d mem1
    by (simp add: ToolCalling_step_Inr [OF gen1] memory_AddStep_def AddStep_def)
  have loop: "stepLoop (ToolCalling_step E a) ctx ?N 1 s1 = (None, s2)"
    using budget nocancel step(1) by (rule stepLoop_break)
  have run: "ToolCallingAgent_Run E a ctx task opts s0 =
      (Inr (fst (mkResult E (fst (time_Now E s0)) s2)), snd (mkResult E (fst (time_Now E s0)) s2))"
    using loop unfolding ToolCallingAgent_Run_def s1_def
    by (simp add: Let_def split_beta)
  show ?thesis
    using run step(2-6) final(3)
    by (auto simp: mkResult_def Let_def split_beta time_Now_def)
qed

theorem Run_completed_witness:
  "1 \<le> MaxSteps (runOptions (exAgent answerModel 2) []) \<and> ctxBackground 1 = None \<and>
   executeTool (exAgent answerModel 2) (mkCall ''final_answer'' [(''answer'', AStr ''42'')])
     = Inr (AStr ''42'') \<and>
   (\<exists>result s' act.
      ToolCallingAgent_Run exEnv (exAgent answerModel 2) ctxBackground ''task'' []
        (freshState ''prompt'') = (Inr result, s')
      \<and> RunState result = ''success'' \<and> RunOutput result = AStr ''42''
      \<and> RunSteps result =
           [Task_Step \<lparr>Task = ''task'', TaskImages = []\<rparr>, Action_Step act,
            FinalAnswer_Step \<lparr>Output = AStr ''42''\<rparr>]
      \<and> StepNumber act = 1 \<and> IsFinal act
      \<and> ToolCalls act = [mkCall ''final_answer'' [(''answer'', AStr ''42'')]])"
proof -
  have opts: "runOptions (exAgent answerModel 2) [] =
      \<lparr>MaxSteps = 2, Reset = True, Images = [], ExtraArgs = []\<rparr>"
    by (simp add: runOptions_def exAgent_def NewToolCallingAgent_def WithModel_def
        WithAgentMaxSteps_def Let_def)
  have m: "model (exAgent answerModel 2) = answerModel"
    by (simp add: exAgent_def NewToolCallingAgent_def WithModel_def WithAgentMaxSteps_def Let_def)
  have ex: "executeTool (exAgent answerModel 2) (mkCall ''final_answer'' [(''answer'', AStr ''42'')])
      = Inr (AStr ''42'')"
    by (simp add: executeTool_def exAgent_def NewToolCallingAgent_def WithModel_def
        WithAgentMaxSteps_def Let_def Register_def NewFinalAnswerTool_def NewToolRegistry_def
        Get_def FinalAnswerTool_Execute_def mkCall_def)
  show ?thesis
    using Run_completed [of "exAgent answerModel 2" "[]" ctxBackground "freshState ''prompt''"
        exEnv "''task''" "mkResponse '''' [mkCall ''final_answer'' [(''answer'', AStr ''42'')]]"
        "[]" "mkCall ''final_answer'' [(''answer'', AStr ''42'')]" "[]" "AStr ''42''"] ex
    by (simp add: opts m answerModel_def ctxBackground_def)
       (simp add: mkResponse_def mkCall_def)
qed

theorem Run_completed_counterexample:
  "noArgModel 1 [] = Inr (mkResponse '''' [mkCall ''final_answer'' []])
   \<and> map_sum id RunState (fst (ToolCallingAgent_Run exEnv (exAgent noArgModel 1) ctxBackground
        ''task'' [] (freshState ''prompt''))) = Inr ''max_steps_error''
   \<and> map StepType (Steps (memory (snd (ToolCallingAgent_Run exEnv (exAgent noArgModel 1)
        ctxBackground ''task'' [] (freshState ''prompt''))))) = [''task'', ''action'']"
  by code_simp

text \<open>
  A final answer that is nil is outside the statement above: the step is marked final
  and the FinalAnswer step is appended, but the state tag is computed from the output
  and reads \<^verbatim>\<open>max_steps_error\<close>.
\<close>

lemma Run_nil_answer:
  "map_sum id RunState (fst (ToolCallingAgent_Run exEnv (exAgent nilAnswerModel 3) ctxBackground
        ''task'' [] (freshState ''prompt''))) = Inr ''max_steps_error''
   \<and> map StepType (Steps (memory (snd (ToolCallingAgent_Run exEnv (exAgent nilAnswerModel 3)
        ctxBackground ''task'' [] (freshState ''prompt'')))))
       = [''task'', ''action'', ''final_answer'']"
  by code_simp

lemma ToolCalling_step_observations:
  assumes gen: "model a step (ToMessages (lib E) (memory s)) = Inr resp"
  shows "\<exists>b s' act rest. ToolCalling_step E a step s = (b, s')
           \<and> Steps (memory s') = Steps (memory s) @ Action_Step act # rest
           \<and> ToolCalls act = MsgToolCalls resp
           \<and> Observations act = Join (map (observation (lib E) a) (MsgToolCalls resp)) ''\<newline>''"
proof -
  have "fst (dispatch (lib E) a (MsgToolCalls resp) ([], False, finalOutput s))
      = map (observation (lib E) a) (MsgToolCalls resp)"
    by (simp add: dispatch_observations)
  then show ?thesis
    by (auto simp: ToolCalling_step_Inr [OF gen] memory_AddStep_def AddStep_def)
qed

subsection \<open>Dispatch of a batch of tool calls\<close>

text \<open>
  C6. A tool call is resolved against the managed agents first (a managed agent wins
  over a tool of the same name), then against the tool registry; a name found in
  neither yields the error \<^verbatim>\<open>unknown tool: <name>\<close>, recorded as the observation line
  \<^verbatim>\<open>Error executing <name>: unknown tool: <name>\<close>. The loop over a batch records one
  observation per call, in call order, whatever the outcome of the other calls, and
  the Action step of a response holds these lines joined by newlines.
\<close>

theorem executeTool_resolution:
  "(managedAgents a (Name tc) = Some agent \<longrightarrow>
      executeTool a tc =
        map_sum id RunOutput
          (agent (case map_of (Arguments tc) ''task'' of Some (AStr t) \<Rightarrow> t | _ \<Rightarrow> '''')))
   \<and> (managedAgents a (Name tc) = None \<and> Get (tools a) (Name tc) = Some tool \<longrightarrow>
        executeTool a tc = Execute tool (Arguments tc))
   \<and> (managedAgents a (Name tc) = None \<and> Get (tools a) (Name tc) = None \<longrightarrow>
        executeTool a tc = Inl (''unknown tool: '' @ Name tc)
        \<and> observation L a tc = ''Error executing '' @ Name tc @ '': unknown tool: '' @ Name tc)
   \<and> fst (dispatch L a tcs ([], False, out)) = map (observation L a) tcs
   \<and> (model a step (ToMessages (lib E) (memory s)) = Inr resp \<longrightarrow>
        (\<exists>b s' act rest. ToolCalling_step E a step s = (b, s')
           \<and> Steps (memory s') = Steps (memory s) @ Action_Step act # rest
           \<and> ToolCalls act = MsgToolCalls resp
           \<and> Observations act =
                Join (map (observation (lib E) a) (MsgToolCalls resp)) ''\<newline>''))"
proof -
  have "managedAgents a (Name tc) = Some agent \<longrightarrow>
      executeTool a tc =
        map_sum id RunOutput
          (agent (case map_of (Arguments tc) ''task'' of Some (AStr t) \<Rightarrow> t | _ \<Rightarrow> ''''))"
    by (simp add: executeTool_def Let_def split: sum.splits)
  moreover have "managedAgents a (Name tc) = None \<and> Get (tools a) (Name tc) = Some tool \<longrightarrow>
        executeTool a tc = Execute tool (Arguments tc)"
    by (simp add: executeTool_def)
  moreover have "managedAgents a (Name tc) = None \<and> Get (tools a) (Name tc) = None \<longrightarrow>
        executeTool a tc = Inl (''unknown tool: '' @ Name tc)
        \<and> observation L a tc = ''Error executing '' @ Name tc @ '': unknown tool: '' @ Name tc"
    by (simp add: executeTool_def observation_def)
  moreover have "fst (dispatch L a tcs ([], False, out)) = map (observation L a) tcs"
    by (simp add: dispatch_observations)
  moreover have "model a step (ToMessages (lib E) (memory s)) = Inr resp \<longrightarrow>
        (\<exists>b s' act rest. ToolCalling_step E a step s = (b, s')
           \<and> Steps (memory s') = Steps (memory s) @ Action_Step act # rest
           \<and> ToolCalls act = MsgToolCalls resp
           \<and> Observations act =
                Join (map (observation (lib E) a) (MsgToolCalls resp)) ''\<newline>'')"
    using ToolCalling_step_observations by blast
  ultimately show ?thesis by blast
qed

theorem executeTool_resolution_witness:
  "managedAgents teamAgent ''researcher'' = Some researcher
   \<and> Get (tools teamAgent) ''researcher'' = Some shadowedTool
   \<and> executeTool teamAgent (mkCall ''researcher'' [(''task'', AStr ''go'')])
       = Inr (AStr ''report on go'')
   \<and> managedAgents teamAgent ''echo'' = None \<and> Get (tools teamAgent) ''echo'' = Some echoTool
   \<and> executeTool teamAgent (mkCall ''echo'' [(''text'', AStr ''hello'')]) = Inr (AStr ''hello'')
   \<and> managedAgents teamAgent ''search'' = None \<and> Get (tools teamAgent) ''search'' = None
   \<and> executeTool teamAgent (mkCall ''search'' [(''q'', AStr ''go'')]) = Inl ''unknown tool: search''
   \<and> fst (dispatch exLib teamAgent teamCalls ([], False, ANil))
       = [''Error executing search: unknown tool: search'', ''hello'', ''report on go'']
   \<and> (\<exists>b s' act rest. ToolCalling_step exEnv teamAgent 1 (freshState ''prompt'') = (b, s')
        \<and> Steps (memory s') = Action_Step act # rest
        \<and> ToolCalls act = teamCalls
        \<and> Observations act =
             ''Error executing search: unknown tool: search\<newline>hello\<newline>report on go'')"
proof -
  have ag: "managedAgents teamAgent = [''researcher'' \<mapsto> researcher]"
    and tl: "tools teamAgent = [''final_answer'' \<mapsto> NewFinalAnswerTool, ''echo'' \<mapsto> echoTool,
        ''researcher'' \<mapsto> shadowedTool]"
    and md: "model teamAgent = teamModel"
    by (simp_all add: teamAgent_def NewToolCallingAgent_def WithModel_def WithToolList_def
        WithManagedAgents_def Let_def Register_def NewFinalAnswerTool_def NewToolRegistry_def
        echoTool_def shadowedTool_def)
  have r: "researcher ''go'' = Inr \<lparr>RunOutput = AStr ''report on go'', RunState = ''success'',
      RunSteps = [], RunTokenUsage = \<lparr>InputTokens = 0, OutputTokens = 0\<rparr>,
      RunTiming = \<lparr>StartTime = 0, EndTime = 0, Duration = 0\<rparr>\<rparr>"
    by (simp add: researcher_def)
  have obs: "map (observation exLib teamAgent) teamCalls
      = [''Error executing search: unknown tool: search'', ''hello'', ''report on go'']"
    by (simp add: teamCalls_def observation_def executeTool_def ag tl Get_def mkCall_def r
        echoTool_def exLib_def)
  note w1 = executeTool_resolution [of teamAgent "mkCall ''researcher'' [(''task'', AStr ''go'')]"
        researcher shadowedTool exLib teamCalls ANil 1 exEnv "freshState ''prompt''"
        "mkResponse ''Three calls.'' teamCalls"]
  note w2 = executeTool_resolution [of teamAgent "mkCall ''echo'' [(''text'', AStr ''hello'')]"
        researcher echoTool exLib "[]" ANil 1 exEnv "freshState ''prompt''"
        "mkResponse ''Three calls.'' teamCalls"]
  note w3 = executeTool_resolution [of teamAgent "mkCall ''search'' [(''q'', AStr ''go'')]"
        researcher echoTool exLib "[]" ANil 1 exEnv "freshState ''prompt''"
        "mkResponse ''Three calls.'' teamCalls"]
  show ?thesis
    using w1 w2 w3
    by (simp add: ag tl md Get_def mkCall_def r echoTool_def obs teamModel_def
        mkResponse_def freshState_def NewMemory_def exEnv_def)
qed

subsection \<open>A final answer whose execution fails\<close>



section \<open>The step of the code agent\<close>

lemma Code_step_Inl:
  assumes "model a step (ToMessages (lib E) (memory s)) = Inl err"
  defines "act \<equiv> (newActionStep step (clock E (ticks s)))\<lparr>Error := Some err\<rparr>"
  shows "Code_step E a state step s =
    (False, s\<lparr>memory := AddStep (Action_Step act) (memory s), ticks := Suc (ticks s),
             events := events s @ [Appended (Action_Step act)]\<rparr>)"
  using assms(1) unfolding act_def
  by (simp add: Code_step_def time_Now_def memory_AddStep_def Let_def)

lemma Code_step_no_code:
  assumes "model a step (ToMessages (lib E) (memory s)) = Inr resp"
    and "parseCodeBlock (Content resp) = ''''"
  defines "act \<equiv> (newActionStep step (clock E (ticks s)))
      \<lparr>ModelOutput := Content resp, TokenUsage := MsgTokenUsage resp,
       Error := Some ''no code block found''\<rparr>"
  shows "Code_step E a state step s =
    (False, s\<lparr>memory := AddStep (Action_Step act) (memory s), ticks := Suc (ticks s),
             events := events s @ [Appended (Action_Step act)]\<rparr>)"
  using assms(1,2) unfolding act_def
  by (simp add: Code_step_def time_Now_def memory_AddStep_def Let_def)

lemma Code_step_exec:
  assumes gen: "model a step (ToMessages (lib E) (memory s)) = Inr resp"
    and code: "parseCodeBlock (Content resp) \<noteq> ''''"
    and ex: "executor a step (parseCodeBlock (Content resp)) state = (output, logs, err)"
  defines "final \<equiv> (err = None \<and> isFinalAnswer (parseCodeBlock (Content resp)))"
  defines "act \<equiv> \<lparr>StepNumber = step,
       Timing = NewTiming (clock E (ticks s)) (clock E (Suc (ticks s))),
       ModelOutput = Content resp, CodeAction = parseCodeBlock (Content resp), ToolCalls = [],
       Observations = logs, Error = err,
       TokenUsage = MsgTokenUsage resp, IsFinal = final\<rparr>"
  defines "s1 \<equiv> s\<lparr>memory := AddStep (Action_Step act) (memory s),
       ticks := Suc (Suc (ticks s)),
       events := events s @ [Appended (Action_Step act)]
          @ map (\<lambda>fn. Called fn (Action_Step act)) (callbacks a ''action'')
          @ map (\<lambda>fn. Called fn (Action_Step act)) (callbacks a ''all''),
       finalOutput := (if final then output else finalOutput s)\<rparr>"
  shows "Code_step E a state step s =
    (if final
     then (True, memory_AddStep (FinalAnswer_Step \<lparr>Output = output\<rparr>) s1)
     else (False, s1))"
proof (cases err)
  case None
  then show ?thesis
    using gen code ex unfolding final_def act_def s1_def
    by (simp add: Code_step_def time_Now_def finishTiming_def memory_AddStep_def
        newActionStep_def Trigger_def Let_def)
next
  case (Some e)
  then show ?thesis
    using gen code ex unfolding final_def act_def s1_def
    by (simp add: Code_step_def time_Now_def finishTiming_def memory_AddStep_def
        newActionStep_def Trigger_def Let_def)
qed

subsection \<open>Final steps of the code agent\<close>

text \<open>
  C3 (as amended). In the code agent, for every step whose model response yields a code
  block that is handed to the executor, the Action step records the code, the returned
  logs and the returned error, and it is marked final if and only if the executor
  returned no error and the code text contains \<^verbatim>\<open>final_answer(\<close>. When it is marked final,
  the executor's output becomes the run's output, a FinalAnswer step with that output is
  appended and the loop ends; otherwise the run's output is unchanged.
  As the claim is written it fails: code that contains the call and whose execution
  returns an error (a timeout, for one) is not marked final.
\<close>

theorem Code_step_final:
  assumes gen: "model a step (ToMessages (lib E) (memory s)) = Inr resp"
    and code: "parseCodeBlock (Content resp) = code" "code \<noteq> ''''"
    and ex: "executor a step code state = (output, logs, err)"
  shows "\<exists>b s' act rest. Code_step E a state step s = (b, s')
      \<and> Steps (memory s') = Steps (memory s) @ Action_Step act # rest
      \<and> CodeAction act = code \<and> Observations act = logs \<and> Error act = err
      \<and> IsFinal act = (err = None \<and> Contains code ''final_answer('')
      \<and> b = IsFinal act
      \<and> (if IsFinal act
          then finalOutput s' = output \<and> rest = [FinalAnswer_Step \<lparr>Output = output\<rparr>]
             \<and> RunOutput (fst (mkResult E t s')) = output
             \<and> (if step \<le> N \<and> ctx step = None
                 then stepLoop (Code_step E a state) ctx N step s = (None, s') else True)
          else finalOutput s' = finalOutput s \<and> rest = [])"
proof -
  have code': "parseCodeBlock (Content resp) \<noteq> ''''"
    and ex': "executor a step (parseCodeBlock (Content resp)) state = (output, logs, err)"
    using code ex by simp_all
  note st = Code_step_exec [OF gen code' ex']
  show ?thesis
  proof (cases "err = None \<and> isFinalAnswer code")
    case True
    then have "Code_step E a state step s = (True, snd (Code_step E a state step s))"
      using st code(1) by simp
    then have "step \<le> N \<and> ctx step = None \<longrightarrow>
        stepLoop (Code_step E a state) ctx N step s = (None, snd (Code_step E a state step s))"
      using stepLoop_break [of step N ctx "Code_step E a state" s] by blast
    then show ?thesis
      using True st code(1)
      by (auto simp: memory_AddStep_def AddStep_def isFinalAnswer_def mkResult_def time_Now_def
          Let_def split_beta)
  next
    case False
    then show ?thesis
      using st code(1)
      by (auto simp: memory_AddStep_def AddStep_def isFinalAnswer_def)
  qed
qed

theorem Code_step_final_witness:
  "parseCodeBlock ''Thought: done.\<newline><code>final_answer(42)'' = ''final_answer(42)''
   \<and> okExecutor 1 ''final_answer(42)'' [] = (ANum 42, ''Final Answer: 42'', None)
   \<and> (\<exists>b s' act rest.
        Code_step exEnv (exCodeAgent codeModel okExecutor 2) [] 1 (freshState ''prompt'') = (b, s')
        \<and> Steps (memory s') = Action_Step act # rest
        \<and> CodeAction act = ''final_answer(42)'' \<and> Observations act = ''Final Answer: 42''
        \<and> Error act = None \<and> IsFinal act \<and> b
        \<and> finalOutput s' = ANum 42 \<and> rest = [FinalAnswer_Step \<lparr>Output = ANum 42\<rparr>]
        \<and> RunOutput (fst (mkResult exEnv 100 s')) = ANum 42
        \<and> stepLoop (Code_step exEnv (exCodeAgent codeModel okExecutor 2) []) ctxBackground 2 1
              (freshState ''prompt'') = (None, s'))"
proof -
  have m: "model (exCodeAgent codeModel okExecutor 2) = codeModel"
    and e: "executor (exCodeAgent codeModel okExecutor 2) = okExecutor"
    by (simp_all add: exCodeAgent_def NewCodeAgent_def WithModel_def WithAgentMaxSteps_def Let_def
        BaseAgent.extend_def CodeAgent.fields_def)
  have p: "parseCodeBlock ''Thought: done.\<newline><code>final_answer(42)'' = ''final_answer(42)''"
    by code_simp
  have x: "okExecutor 1 ''final_answer(42)'' [] = (ANum 42, ''Final Answer: 42'', None)"
    by code_simp
  have c: "Contains ''final_answer(42)'' ''final_answer(''"
    by code_simp
  have g: "model (exCodeAgent codeModel okExecutor 2) 1
      (ToMessages (lib exEnv) (memory (freshState ''prompt'')))
      = Inr (mkResponse ''Thought: done.\<newline><code>final_answer(42)'' [])"
    by (simp add: m codeModel_def)
  have p': "parseCodeBlock (Content (mkResponse ''Thought: done.\<newline><code>final_answer(42)'' []))
      = ''final_answer(42)''"
    using p by (simp add: mkResponse_def)
  have x': "executor (exCodeAgent codeModel okExecutor 2) 1 ''final_answer(42)'' []
      = (ANum 42, ''Final Answer: 42'', None)"
    using x by (simp add: e)
  obtain b s' act rest where w:
      "Code_step exEnv (exCodeAgent codeModel okExecutor 2) [] 1 (freshState ''prompt'') = (b, s')"
      "Steps (memory s') = Steps (memory (freshState ''prompt'')) @ Action_Step act # rest"
      "CodeAction act = ''final_answer(42)''" "Observations act = ''Final Answer: 42''"
      "Error act = None"
      "IsFinal act = (None = (None :: error option) \<and> Contains ''final_answer(42)'' ''final_answer('')"
      "b = IsFinal act"
      "if IsFinal act
       then finalOutput s' = ANum 42 \<and> rest = [FinalAnswer_Step \<lparr>Output = ANum 42\<rparr>]
          \<and> RunOutput (fst (mkResult exEnv 100 s')) = ANum 42
          \<and> (if (1::int) \<le> 2 \<and> ctxBackground 1 = None
              then stepLoop (Code_step exEnv (exCodeAgent codeModel okExecutor 2) []) ctxBackground
                     2 1 (freshState ''prompt'') = (None, s')
              else True)
       else finalOutput s' = finalOutput (freshState ''prompt'') \<and> rest = []"
    using Code_step_final [OF g p' _ x', of 100 2 ctxBackground] by auto
  have f: "IsFinal act" using w(6) c by simp
  have s0: "Steps (memory (freshState ''prompt'')) = []"
    by (simp add: freshState_def NewMemory_def)
  show ?thesis
    using w f p x s0 by (auto simp: ctxBackground_def)
qed

theorem Code_step_final_counterexample:
  "isFinalAnswer (parseCodeBlock ''Thought: done.\<newline><code>final_answer(42)'')
   \<and> slowExecutor 1 ''final_answer(42)'' [] = (ANil, '''', Some ''execution timeout after 30s'')
   \<and> Code_step exEnv (exCodeAgent codeModel slowExecutor 2) [] 1 (freshState ''prompt'')
       = (False,
          \<lparr>memory = \<lparr>SystemPrompt = ''prompt'', Steps = [Action_Step
               \<lparr>StepNumber = 1, Timing = \<lparr>StartTime = 100, EndTime = 101, Duration = 1\<rparr>,
                ModelOutput = ''Thought: done.\<newline><code>final_answer(42)'',
                CodeAction = ''final_answer(42)'', ToolCalls = [], Observations = '''',
                Error = Some ''execution timeout after 30s'', TokenUsage = None,
                IsFinal = False\<rparr>]\<rparr>,
           ticks = 2,
           events = [Appended (Action_Step
               \<lparr>StepNumber = 1, Timing = \<lparr>StartTime = 100, EndTime = 101, Duration = 1\<rparr>,
                ModelOutput = ''Thought: done.\<newline><code>final_answer(42)'',
                CodeAction = ''final_answer(42)'', ToolCalls = [], Observations = '''',
                Error = Some ''execution timeout after 30s'', TokenUsage = None,
                IsFinal = False\<rparr>),
              Called 3 (Action_Step
               \<lparr>StepNumber = 1, Timing = \<lparr>StartTime = 100, EndTime = 101, Duration = 1\<rparr>,
                ModelOutput = ''Thought: done.\<newline><code>final_answer(42)'',
                CodeAction = ''final_answer(42)'', ToolCalls = [], Observations = '''',
                Error = Some ''execution timeout after 30s'', TokenUsage = None,
                IsFinal = False\<rparr>),
              Called 7 (Action_Step
               \<lparr>StepNumber = 1, Timing = \<lparr>StartTime = 100, EndTime = 101, Duration = 1\<rparr>,
                ModelOutput = ''Thought: done.\<newline><code>final_answer(42)'',
                CodeAction = ''final_answer(42)'', ToolCalls = [], Observations = '''',
                Error = Some ''execution timeout after 30s'', TokenUsage = None,
                IsFinal = False\<rparr>)],
           finalOutput = ANil\<rparr>)"
  by code_simp

subsection \<open>Timing, append and callbacks\<close>

text \<open>
  C5 (as amended). \<open>Register\<close> puts a handler behind those registered before for the same
  key, and \<open>Trigger\<close> calls the handlers of the step's type and then those registered for
  \<^verbatim>\<open>all\<close>, each list in registration order. In both agents, an Action step of a step whose
  model call succeeded (and, in the code agent, whose response held a code block) is
  appended with its timing finalized, and right after the append these handlers are
  called with it; a FinalAnswer step follows when the step is final. An Action step
  that records a failed model call, or a response without a code block, is appended
  and no handler is called.
  As the claim is written it fails on these failure steps: no callback is invoked for
  them.
\<close>

theorem callbacks_after_append:
  "Register_Callback stepType fn r stepType = r stepType @ [fn]
   \<and> events (Trigger r st s) =
        events s @ map (\<lambda>fn. Called fn st) (r (StepType st)) @ map (\<lambda>fn. Called fn st) (r ''all'')
   \<and> (model a step (ToMessages (lib E) (memory s)) = Inr resp \<longrightarrow>
        (\<exists>b s' act. ToolCalling_step E a step s = (b, s')
           \<and> Timing act = NewTiming (clock E (ticks s)) (clock E (Suc (ticks s)))
           \<and> events s' = events s @ Appended (Action_Step act)
                # map (\<lambda>fn. Called fn (Action_Step act)) (callbacks a ''action'' @ callbacks a ''all'')
                @ (if IsFinal act then [Appended (FinalAnswer_Step \<lparr>Output = finalOutput s'\<rparr>)]
                   else [])))
   \<and> (model c step (ToMessages (lib E) (memory s)) = Inr resp
        \<and> parseCodeBlock (Content resp) \<noteq> '''' \<longrightarrow>
        (\<exists>b s' act. Code_step E c state step s = (b, s')
           \<and> Timing act = NewTiming (clock E (ticks s)) (clock E (Suc (ticks s)))
           \<and> events s' = events s @ Appended (Action_Step act)
                # map (\<lambda>fn. Called fn (Action_Step act)) (callbacks c ''action'' @ callbacks c ''all'')
                @ (if IsFinal act then [Appended (FinalAnswer_Step \<lparr>Output = finalOutput s'\<rparr>)]
                   else [])))
   \<and> (model a step (ToMessages (lib E) (memory s)) = Inl err \<longrightarrow>
        (\<exists>s' act. ToolCalling_step E a step s = (False, s') \<and> Error act = Some err
           \<and> events s' = events s @ [Appended (Action_Step act)]))
   \<and> (model c step (ToMessages (lib E) (memory s)) = Inl err \<longrightarrow>
        (\<exists>s' act. Code_step E c state step s = (False, s') \<and> Error act = Some err
           \<and> events s' = events s @ [Appended (Action_Step act)]))
   \<and> (model c step (ToMessages (lib E) (memory s)) = Inr resp
        \<and> parseCodeBlock (Content resp) = '''' \<longrightarrow>
        (\<exists>s' act. Code_step E c state step s = (False, s')
           \<and> Error act = Some ''no code block found''
           \<and> events s' = events s @ [Appended (Action_Step act)]))"
proof -
  have 1: "Register_Callback stepType fn r stepType = r stepType @ [fn]"
    by (simp add: Register_Callback_def)
  have 2: "events (Trigger r st s) =
        events s @ map (\<lambda>fn. Called fn st) (r (StepType st)) @ map (\<lambda>fn. Called fn st) (r ''all'')"
    by (simp add: Trigger_def Let_def)
  have 3: "\<exists>b s' act. ToolCalling_step E a step s = (b, s')
           \<and> Timing act = NewTiming (clock E (ticks s)) (clock E (Suc (ticks s)))
           \<and> events s' = events s @ Appended (Action_Step act)
                # map (\<lambda>fn. Called fn (Action_Step act)) (callbacks a ''action'' @ callbacks a ''all'')
                @ (if IsFinal act then [Appended (FinalAnswer_Step \<lparr>Output = finalOutput s'\<rparr>)]
                   else [])"
    if gen: "model a step (ToMessages (lib E) (memory s)) = Inr resp"
    by (auto simp: ToolCalling_step_Inr [OF gen] memory_AddStep_def)
  have 4: "\<exists>b s' act. Code_step E c state step s = (b, s')
           \<and> Timing act = NewTiming (clock E (ticks s)) (clock E (Suc (ticks s)))
           \<and> events s' = events s @ Appended (Action_Step act)
                # map (\<lambda>fn. Called fn (Action_Step act)) (callbacks c ''action'' @ callbacks c ''all'')
                @ (if IsFinal act then [Appended (FinalAnswer_Step \<lparr>Output = finalOutput s'\<rparr>)]
                   else [])"
    if gen: "model c step (ToMessages (lib E) (memory s)) = Inr resp"
      and code: "parseCodeBlock (Content resp) \<noteq> ''''"
  proof -
    obtain outp logs err where
      ex: "executor c step (parseCodeBlock (Content resp)) state = (outp, logs, err)"
      by (cases "executor c step (parseCodeBlock (Content resp)) state") auto
    show ?thesis
      by (auto simp: Code_step_exec [OF gen code ex] memory_AddStep_def)
  qed
  have 5: "\<exists>s' act. ToolCalling_step E a step s = (False, s') \<and> Error act = Some err
           \<and> events s' = events s @ [Appended (Action_Step act)]"
    if gen: "model a step (ToMessages (lib E) (memory s)) = Inl err"
    by (simp add: ToolCalling_step_Inl [OF gen])
  have 6: "\<exists>s' act. Code_step E c state step s = (False, s') \<and> Error act = Some err
           \<and> events s' = events s @ [Appended (Action_Step act)]"
    if gen: "model c step (ToMessages (lib E) (memory s)) = Inl err"
    by (simp add: Code_step_Inl [OF gen])
  have 7: "\<exists>s' act. Code_step E c state step s = (False, s')
           \<and> Error act = Some ''no code block found''
           \<and> events s' = events s @ [Appended (Action_Step act)]"
    if gen: "model c step (ToMessages (lib E) (memory s)) = Inr resp"
      and code: "parseCodeBlock (Content resp) = ''''"
    by (simp add: Code_step_no_code [OF gen code])
  show ?thesis
    using 1 2 3 4 5 6 7 by blast
qed

theorem callbacks_after_append_witness:
  "callbacks (exAgent searchModel 2) ''action'' = [3]
   \<and> callbacks (exAgent searchModel 2) ''all'' = [7, 8]
   \<and> (\<exists>b s' act. ToolCalling_step exEnv (exAgent searchModel 2) 1 (freshState ''prompt'') = (b, s')
        \<and> Timing act = \<lparr>StartTime = 100, EndTime = 101, Duration = 1\<rparr>
        \<and> \<not> IsFinal act
        \<and> events s' = [Appended (Action_Step act), Called 3 (Action_Step act),
                        Called 7 (Action_Step act), Called 8 (Action_Step act)])
   \<and> (\<exists>s' act. ToolCalling_step exEnv (exAgent failingModel 2) 1 (freshState ''prompt'') = (False, s')
        \<and> Error act = Some ''connection refused''
        \<and> events s' = [Appended (Action_Step act)])"
proof -
  have m: "model (exAgent searchModel 2) = searchModel" "model (exAgent failingModel 2) = failingModel"
    by (simp_all add: exAgent_def NewToolCallingAgent_def WithModel_def WithAgentMaxSteps_def Let_def)
  have cb: "callbacks (exAgent searchModel 2) ''action'' = [3]"
      "callbacks (exAgent searchModel 2) ''all'' = [7, 8]"
    by (simp_all add: exAgent_def Register_Callback_def NewCallbackRegistry_def)
  have g1: "model (exAgent searchModel 2) 1 (ToMessages (lib exEnv) (memory (freshState ''prompt'')))
      = Inr (mkResponse ''Let me search.'' [mkCall ''search'' [(''q'', AStr ''go'')]])"
    by (simp add: m searchModel_def)
  have g2: "model (exAgent failingModel 2) 1 (ToMessages (lib exEnv) (memory (freshState ''prompt'')))
      = Inl ''connection refused''"
    by (simp add: m failingModel_def)
  note th = callbacks_after_append [of "''all''" "8::nat" NewCallbackRegistry
      "Task_Step \<lparr>Task = ''task'', TaskImages = []\<rparr>" "freshState ''prompt''"
      "exAgent searchModel 2" 1 exEnv
      "mkResponse ''Let me search.'' [mkCall ''search'' [(''q'', AStr ''go'')]]"
      "exCodeAgent failingModel okExecutor 2" "[]" "''connection refused''"]
  note th2 = callbacks_after_append [of "''all''" "8::nat" NewCallbackRegistry
      "Task_Step \<lparr>Task = ''task'', TaskImages = []\<rparr>" "freshState ''prompt''"
      "exAgent failingModel 2" 1 exEnv
      "mkResponse ''Let me search.'' [mkCall ''search'' [(''q'', AStr ''go'')]]"
      "exCodeAgent failingModel okExecutor 2" "[]" "''connection refused''"]
  obtain b s' act where w1:
      "ToolCalling_step exEnv (exAgent searchModel 2) 1 (freshState ''prompt'') = (b, s')"
      "Timing act = NewTiming (clock exEnv (ticks (freshState ''prompt'')))
          (clock exEnv (Suc (ticks (freshState ''prompt''))))"
      "events s' = events (freshState ''prompt'') @ Appended (Action_Step act)
          # map (\<lambda>fn. Called fn (Action_Step act))
              (callbacks (exAgent searchModel 2) ''action'' @ callbacks (exAgent searchModel 2) ''all'')
          @ (if IsFinal act then [Appended (FinalAnswer_Step \<lparr>Output = finalOutput s'\<rparr>)] else [])"
    using th g1 by blast
  obtain s'' act' where w2:
      "ToolCalling_step exEnv (exAgent failingModel 2) 1 (freshState ''prompt'') = (False, s'')"
      "Error act' = Some ''connection refused''"
      "events s'' = events (freshState ''prompt'') @ [Appended (Action_Step act')]"
    using th2 g2 by blast
  have nf: "\<not> IsFinal act"
  proof
    assume f: "IsFinal act"
    have "length (events (snd (ToolCalling_step exEnv (exAgent searchModel 2) 1
        (freshState ''prompt'')))) = 4"
      by code_simp
    then show False using w1(1,3) f by (simp add: cb freshState_def)
  qed
  show ?thesis
    using w1 w2 nf
    by (auto simp: cb freshState_def exEnv_def NewTiming_def)
qed

theorem callbacks_after_append_counterexample:
  "callbacks (exCodeAgent failingModel okExecutor 1) ''action'' = [3]
   \<and> callbacks (exCodeAgent failingModel okExecutor 1) ''all'' = [7]
   \<and> events (snd (snd (CodeAgent_Run exEnv (exCodeAgent failingModel okExecutor 1) ctxBackground
        ''task'' [] (freshState ''prompt''))))
      = [Appended (Task_Step \<lparr>Task = ''task'', TaskImages = []\<rparr>),
         Appended (Action_Step
           \<lparr>StepNumber = 1, Timing = \<lparr>StartTime = 101, EndTime = 0, Duration = 0\<rparr>,
            ModelOutput = '''', CodeAction = '''', ToolCalls = [], Observations = '''',
            Error = Some ''connection refused'', TokenUsage = None, IsFinal = False\<rparr>)]"
  by code_simp

subsection \<open>Extraction of the code block\<close>



section \<open>The executors\<close>

lemma Split_newline_not_Nil: "Split_newline t \<noteq> []"
  by (induction t) (simp_all add: Let_def)

lemma Split_newline_single:
  "tl (Split_newline t) = [] \<longleftrightarrow> CHR 0x0A \<notin> set t"
proof (induction t)
  case Nil
  show ?case by simp
next
  case (Cons c cs)
  then show ?case
    using Split_newline_not_Nil [of cs] by (cases "Split_newline cs") (auto simp: Let_def)
qed

lemma last_Split_newline_empty:
  "last (Split_newline t) = [] \<longleftrightarrow> (t = [] \<or> last t = CHR 0x0A)"
proof (induction t)
  case Nil
  show ?case by simp
next
  case (Cons c cs)
  obtain l ls where r: "Split_newline cs = l # ls"
    using Split_newline_not_Nil [of cs] by (cases "Split_newline cs") auto
  show ?case
  proof (cases "cs = []")
    case True
    then show ?thesis by (simp add: Let_def)
  next
    case False
    have "ls \<noteq> []" if "last cs = CHR 0x0A"
    proof -
      have "last cs \<in> set cs" using False by (rule last_in_set)
      then have "CHR 0x0A \<in> set cs" using that by simp
      then show ?thesis using Split_newline_single [of cs] r by auto
    qed
    with False show ?thesis
      using Cons.IH r by (cases ls) (auto simp: Let_def)
  qed
qed

lemma dropSpaces_no_prefix:
  "length s \<le> n \<Longrightarrow> [] \<notin> set ps \<Longrightarrow> p \<in> set ps \<Longrightarrow> \<not> prefix p (dropSpaces ps n s)"
proof (induction n arbitrary: s)
  case 0
  then show ?case by auto
next
  case (Suc n)
  show ?case
  proof (cases "find (\<lambda>q. prefix q s) ps")
    case None
    then have "\<not> prefix p s" using Suc.prems(3) by (auto simp: find_None_iff)
    then show ?thesis using None by simp
  next
    case (Some q)
    then have q: "q \<in> set ps" "prefix q s"
      by (auto simp: find_Some_iff)
    then have "q \<noteq> []" using Suc.prems(2) by auto
    then have "length (drop (length q) s) \<le> n"
      using q(2) Suc.prems(1) by (cases q) (auto simp: prefix_def)
    then show ?thesis
      using Suc.IH Suc.prems(2,3) Some by simp
  qed
qed

lemma TrimSpace_last:
  assumes "TrimSpace s \<noteq> []"
  shows "last (TrimSpace s) \<noteq> CHR 0x0A"
proof -
  define l where "l = dropSpaces spaceRunes (length s) s"
  define r where "r = dropSpaces (map rev spaceRunes) (length l) (rev l)"
  have t: "TrimSpace s = rev r" by (simp add: TrimSpace_def l_def r_def Let_def)
  have "\<not> prefix [CHR 0x0A] r"
    unfolding r_def by (rule dropSpaces_no_prefix) (simp_all add: spaceRunes_def)
  moreover have "r \<noteq> []" using assms t by simp
  ultimately have "hd r \<noteq> CHR 0x0A" by (cases r) auto
  then show ?thesis using t \<open>r \<noteq> []\<close> by (simp add: last_rev)
qed

lemma lastNonEmptyLine_last:
  "ls \<noteq> [] \<Longrightarrow> last ls \<noteq> [] \<Longrightarrow> lastNonEmptyLine ls = Some (butlast ls, last ls)"
  by (cases ls rule: rev_cases) (simp_all add: lastNonEmptyLine_def)

lemma resultLine_TrimSpace:
  "resultLine (TrimSpace logs) =
     (let ls = Split_newline (TrimSpace logs)
      in if prefix ''__RESULT__:'' (last ls) then Some (butlast ls, last ls) else None)"
proof (cases "TrimSpace logs = []")
  case True
  then show ?thesis by (simp add: resultLine_def lastNonEmptyLine_def)
next
  case False
  then have "last (Split_newline (TrimSpace logs)) \<noteq> []"
    using TrimSpace_last [OF False] by (simp add: last_Split_newline_empty)
  then show ?thesis
    by (simp add: resultLine_def lastNonEmptyLine_last Split_newline_not_Nil Let_def)
qed

subsection \<open>The result line\<close>

text \<open>
  C7 (as amended). When the process ends in time and without error, both executors
  remove the white space around the log text and split what is left into lines. If the
  last non-empty line of this trimmed text carries the prefix \<^verbatim>\<open>__RESULT__:\<close>, \<open>Execute\<close>
  returns the JSON decoding of the rest of that line (nil when it does not decode) as
  output, the lines of the trimmed text before it, joined by newlines, as logs, and no
  error; otherwise it returns nil, the full untrimmed log text and no error.
  As the claim is written, with the lines of the log text itself, it fails: white space
  at the start of the log is missing from the returned logs.
\<close>

theorem Execute_result_line:
  "fst (PythonExecutor_Execute L e code state
          (case_done \<lparr>stdout = logs, stderr = errText, runErr = None\<rparr>))
     = (case resultLine (TrimSpace logs) of
          Some (before, l) \<Rightarrow>
            (unmarshalAny L (drop (length ''__RESULT__:'') l), Join before ''\<newline>'', None)
        | None \<Rightarrow> (ANil, logs, None))
   \<and> fst (DockerExecutor_Execute L d code state
          (case_done \<lparr>stdout = logs, stderr = errText, runErr = None\<rparr>))
     = (case resultLine (TrimSpace logs) of
          Some (before, l) \<Rightarrow>
            (unmarshalAny L (drop (length ''__RESULT__:'') l), Join before ''\<newline>'', None)
        | None \<Rightarrow> (ANil, logs, None))"
proof -
  define ls where "ls = Split_newline (TrimSpace logs)"
  have ne: "ls \<noteq> []" by (simp add: ls_def Split_newline_not_Nil)
  then have idx: "ls ! (length ls - 1) = last ls" "take (length ls - 1) ls = butlast ls"
    by (simp_all add: last_conv_nth butlast_conv_take)
  have rl: "resultLine (TrimSpace logs) =
      (if prefix ''__RESULT__:'' (last ls) then Some (butlast ls, last ls) else None)"
    by (simp add: resultLine_TrimSpace ls_def Let_def)
  have "fst (PythonExecutor_Execute L e code state
          (case_done \<lparr>stdout = logs, stderr = errText, runErr = None\<rparr>))
     = (case resultLine (TrimSpace logs) of
          Some (before, l) \<Rightarrow>
            (unmarshalAny L (drop (length ''__RESULT__:'') l), Join before ''\<newline>'', None)
        | None \<Rightarrow> (ANil, logs, None))"
    using ne idx unfolding rl
    by (simp add: PythonExecutor_Execute_def Let_def TrimPrefix_def ls_def [symmetric])
  moreover have "fst (DockerExecutor_Execute L d code state
          (case_done \<lparr>stdout = logs, stderr = errText, runErr = None\<rparr>))
     = (case resultLine (TrimSpace logs) of
          Some (before, l) \<Rightarrow>
            (unmarshalAny L (drop (length ''__RESULT__:'') l), Join before ''\<newline>'', None)
        | None \<Rightarrow> (ANil, logs, None))"
    using ne idx unfolding rl
    by (simp add: DockerExecutor_Execute_def Let_def ls_def [symmetric])
  ultimately show ?thesis by simp
qed

theorem Execute_result_line_counterexample:
  "resultLine ''  a\<newline>__RESULT__:42\<newline>'' = Some ([''  a''], ''__RESULT__:42'')
   \<and> fst (PythonExecutor_Execute exLib exPython ''print(a)'' []
            (case_done \<lparr>stdout = ''  a\<newline>__RESULT__:42\<newline>'', stderr = '''', runErr = None\<rparr>))
       = (ANum 42, ''a'', None)
   \<and> fst (DockerExecutor_Execute exLib exDocker ''print(a)'' []
            (case_done \<lparr>stdout = ''  a\<newline>__RESULT__:42\<newline>'', stderr = '''', runErr = None\<rparr>))
       = (ANum 42, ''a'', None)"
  by code_simp

subsection \<open>The timeout of the executors\<close>

text \<open>
  C4. When the timer fires first, both executors return nil, empty logs and a timeout
  error. The local executor has then killed the process; the container executor has
  performed no operation on the process it started, which goes on running.
\<close>

theorem Execute_timeout:
  "PythonExecutor_Execute L e code state case_timeout
     = ((ANil, '''', Some (''execution timeout after '' @ fmt_Duration L (timeout e))),
        [Start, Kill])
   \<and> DockerExecutor_Execute L d code state case_timeout
     = ((ANil, '''', Some ''docker execution timeout''), [Start])
   \<and> Kill \<notin> set (snd (DockerExecutor_Execute L d code state case_timeout))"
  by (simp add: PythonExecutor_Execute_def DockerExecutor_Execute_def)

end
